theory Spec2Isabelle
  imports Main "HOL-Library.AList"
begin

section \<open>The schedule list of the frontend\<close>

text \<open>
  The repository holds two versions of the \<open>ScheduleList\<close> component (the unnamed source
  parts 000 and 003). They share the \<open>Schedule\<close> interface, the component state, the
  handlers, \<open>formatDate\<close>, the status filter and the table wiring; they differ in the Type
  cell and in the Actions cell. What is shared is defined once; what differs carries the
  suffix \<open>_000\<close> or \<open>_003\<close>.
\<close>

subsection \<open>The Schedule interface\<close>

text \<open>
  \<^verbatim>\<open>status: 'ACTIVE' | 'PAUSED' | 'COMPLETED' | 'ERROR'\<close> and
  \<^verbatim>\<open>scheduleType: 'ONE_TIME' | 'RECURRING'\<close> are unions of string literals: a datatype
  with one constructor per literal, and the literal each constructor stands for.
\<close>

datatype schedule_status = ACTIVE | PAUSED | COMPLETED | ERROR

datatype schedule_type = ONE_TIME | RECURRING

fun status_literal :: "schedule_status \<Rightarrow> string" where
  "status_literal ACTIVE = ''ACTIVE''"
| "status_literal PAUSED = ''PAUSED''"
| "status_literal COMPLETED = ''COMPLETED''"
| "status_literal ERROR = ''ERROR''"

fun scheduleType_literal :: "schedule_type \<Rightarrow> string" where
  "scheduleType_literal ONE_TIME = ''ONE_TIME''"
| "scheduleType_literal RECURRING = ''RECURRING''"

text \<open>
  The optional fields \<open>lastRunTime?\<close> and \<open>cronExpression?\<close> are options: \<open>None\<close> is the
  missing field (\<open>undefined\<close>). The field \<open>id\<close> is named \<open>schedule_id\<close>, since \<open>id\<close> is the
  identity function of HOL.
\<close>

record schedule =
  schedule_id :: string
  name :: string
  templateId :: string
  templateName :: string
  status :: schedule_status
  scheduleType :: schedule_type
  nextRunTime :: string
  lastRunTime :: "string option"
  cronExpression :: "string option"
  outputFormat :: string
  rowCount :: int

text \<open>
  JavaScript truthiness of an optional string, as the conditions \<open>x ? a : b\<close> and \<open>!x\<close> of
  the source read it: a missing value and the empty string are falsy.
\<close>

fun truthy :: "string option \<Rightarrow> bool" where
  "truthy None = False"
| "truthy (Some s) = (s \<noteq> [])"

subsection \<open>The wire contract's enum values\<close>

text \<open>
  The second definition of the comparison, written after the specification's words: the
  enum spellings of the wire contract for status and schedule type.
\<close>

definition wire_status_values :: "string list" where
  "wire_status_values = [''ACTIVE'', ''PAUSED'', ''COMPLETED'', ''ERROR'']"

definition wire_scheduleType_values :: "string list" where
  "wire_scheduleType_values = [''ONE_TIME'', ''RECURRING'']"

subsection \<open>The status filter\<close>

text \<open>The \<open>option\<close> elements of the status \<open>select\<close>, in order: value and label.\<close>

definition statusFilterOptions :: "(string \<times> string) list" where
  "statusFilterOptions =
     [('''', ''All Statuses''),
      (''ACTIVE'', ''Active''),
      (''PAUSED'', ''Paused''),
      (''COMPLETED'', ''Completed''),
      (''ERROR'', ''Error'')]"

subsection \<open>Component state and the filter handlers\<close>

record list_state =
  selectedSchedule :: "schedule option"
  showDeleteModal :: bool
  searchTerm :: string
  statusFilter :: string
  currentPage :: int
  pageSize :: int

text \<open>The values of the \<open>useState\<close> calls at the first render.\<close>

definition initial_state :: list_state where
  "initial_state =
     \<lparr>selectedSchedule = None, showDeleteModal = False, searchTerm = '''',
      statusFilter = '''', currentPage = 0, pageSize = 10\<rparr>"

text \<open>
  \<open>handleSearchChange\<close> and \<open>handleStatusFilterChange\<close> take the event's
  \<open>e.target.value\<close> and call two setters each.
\<close>

definition handleSearchChange :: "string \<Rightarrow> list_state \<Rightarrow> list_state" where
  "handleSearchChange v st = st\<lparr>searchTerm := v, currentPage := 0\<rparr>"

definition handleStatusFilterChange :: "string \<Rightarrow> list_state \<Rightarrow> list_state" where
  "handleStatusFilterChange v st = st\<lparr>statusFilter := v, currentPage := 0\<rparr>"

subsection \<open>Date cells\<close>

text \<open>
  What a cell shows is either a literal string of the source or the result of
  \<open>new Date(dateString).toLocaleString()\<close>, which depends on the locale of the browser and
  is kept symbolic: \<open>LocaleString d\<close> is the one result that went through \<open>Date\<close> parsing.
\<close>

datatype cell_text = Literal string | LocaleString string

definition formatDate :: "string \<Rightarrow> cell_text" where
  "formatDate dateString =
     (if dateString = [] then Literal ''N/A'' else LocaleString dateString)"

definition nextRunCell :: "schedule \<Rightarrow> cell_text" where
  "nextRunCell s = formatDate (nextRunTime s)"

definition lastRunCell :: "schedule \<Rightarrow> cell_text" where
  "lastRunCell s =
     (case lastRunTime s of
        None \<Rightarrow> Literal ''Never''
      | Some t \<Rightarrow> if truthy (Some t) then formatDate t else Literal ''Never'')"

fun reaches_Date :: "cell_text \<Rightarrow> bool" where
  "reaches_Date (Literal _) = False"
| "reaches_Date (LocaleString _) = True"

subsection \<open>The Type cell, in both versions\<close>

text \<open>
  Part 000 renders an icon and a label and branches on
  \<^verbatim>\<open>schedule.scheduleType === 'ONE_TIME'\<close>: the pair is the icon's component name and the text
  of the \<open>span\<close>. Part 003 renders \<^verbatim>\<open>schedule.cronExpression ? 'Recurring' : 'One-time'\<close>.
\<close>

definition typeCell_000 :: "schedule \<Rightarrow> string \<times> string" where
  "typeCell_000 s =
     (if scheduleType s = ONE_TIME then (''Calendar'', ''One-time'')
      else (''RefreshCw'', ''Recurring''))"

definition typeCell_003 :: "schedule \<Rightarrow> string" where
  "typeCell_003 s = (if truthy (cronExpression s) then ''Recurring'' else ''One-time'')"

text \<open>
  Two schedules as the list receives them: a recurring one with its cron expression, and
  a one-time one without.
\<close>

definition nightly_schedule :: schedule where
  "nightly_schedule =
     \<lparr>schedule_id = ''s1'', name = ''Nightly'', templateId = ''T1'',
      templateName = ''Customers'', status = ACTIVE, scheduleType = RECURRING,
      nextRunTime = ''2026-01-02T00:00:00'', lastRunTime = None,
      cronExpression = Some ''0 0 0 * * ?'', outputFormat = ''CSV'', rowCount = 100\<rparr>"

definition once_schedule :: schedule where
  "once_schedule =
     \<lparr>schedule_id = ''s2'', name = ''Once'', templateId = ''T1'',
      templateName = ''Customers'', status = ACTIVE, scheduleType = ONE_TIME,
      nextRunTime = ''2026-01-01T00:00:00'', lastRunTime = None,
      cronExpression = None, outputFormat = ''CSV'', rowCount = 100\<rparr>"

subsection \<open>The table's data and pagination\<close>

text \<open>
  \<open>schedulesData\<close> is the \<open>data\<close> state of \<open>useApi\<close>: absent before the first response, then
  a response object whose \<open>data\<close> field holds the page. The optional chaining
  \<open>schedulesData?.data?.content\<close> makes every level optional.
\<close>

record page_obj =
  content :: "schedule list option"
  totalElements :: "int option"
  totalPages :: "int option"

record api_response =
  data :: "page_obj option"

text \<open>
  \<open>x || d\<close> on an optional number: \<open>d\<close> when \<open>x\<close> is missing or \<open>0\<close>, the falsy numbers
  (\<open>NaN\<close>, the third falsy number, is not an integer and is not modelled). An array is
  always truthy, so \<open>content || []\<close> replaces a missing array only.
\<close>

fun or_number :: "int option \<Rightarrow> int \<Rightarrow> int" where
  "or_number None d = d"
| "or_number (Some n) d = (if n = 0 then d else n)"

fun or_array :: "'a list option \<Rightarrow> 'a list \<Rightarrow> 'a list" where
  "or_array None d = d"
| "or_array (Some xs) d = xs"

definition page_of :: "api_response option \<Rightarrow> page_obj option" where
  "page_of schedulesData = (case schedulesData of None \<Rightarrow> None | Some r \<Rightarrow> data r)"

definition tableData :: "api_response option \<Rightarrow> schedule list" where
  "tableData schedulesData =
     or_array (case page_of schedulesData of None \<Rightarrow> None | Some p \<Rightarrow> content p) []"

record table_pagination =
  pg_currentPage :: int
  pg_totalPages :: int
  pg_totalItems :: int
  pg_pageSize :: int

definition tablePagination :: "list_state \<Rightarrow> api_response option \<Rightarrow> table_pagination" where
  "tablePagination st schedulesData =
     \<lparr>pg_currentPage = currentPage st,
      pg_totalPages =
        or_number (case page_of schedulesData of None \<Rightarrow> None | Some p \<Rightarrow> totalPages p) 1,
      pg_totalItems =
        or_number (case page_of schedulesData of None \<Rightarrow> None | Some p \<Rightarrow> totalElements p) 0,
      pg_pageSize = pageSize st\<rparr>"

text \<open>The page the backend returns for a list without elements.\<close>

definition empty_page_response :: "api_response option" where
  "empty_page_response =
     Some \<lparr>data = Some \<lparr>content = Some [], totalElements = Some 0, totalPages = Some 0\<rparr>\<rparr>"

subsection \<open>Requests to the backend\<close>

text \<open>
  The argument object of \<open>getSchedules\<close> has the four keys \<open>page\<close>, \<open>size\<close>, \<open>search\<close> and
  \<open>status\<close> (suffixed here: \<open>size\<close> is a constant of HOL and \<open>status\<close> a field of the
  schedule).
\<close>

record schedule_filter =
  page_param :: int
  size_param :: int
  search_param :: string
  status_param :: string

datatype request =
    GetSchedules schedule_filter
  | ActivateSchedule string
  | PauseSchedule string
  | DeleteSchedule string

fun fetch_filters :: "request list \<Rightarrow> schedule_filter list" where
  "fetch_filters [] = []"
| "fetch_filters (GetSchedules f # rs) = f # fetch_filters rs"
| "fetch_filters (_ # rs) = fetch_filters rs"

fun is_activate :: "request \<Rightarrow> bool" where
  "is_activate (ActivateSchedule _) = True"
| "is_activate _ = False"

text \<open>The initial arguments handed to \<open>useApi(getSchedules, [...], {immediate: true})\<close>.\<close>

definition useApi_initialArgs :: "list_state \<Rightarrow> schedule_filter list" where
  "useApi_initialArgs st =
     [\<lparr>page_param = currentPage st, size_param = pageSize st,
       search_param = searchTerm st, status_param = statusFilter st\<rparr>]"

text \<open>
  The refresh effect. React runs the function of \<open>useEffect\<close> after the first render and
  after every render in which one of the dependencies differs from its value at the
  previous render. The dependency array is
  \<open>[currentPage, pageSize, searchTerm, statusFilter, fetchSchedules]\<close>; the identity of the
  function \<open>fetchSchedules\<close>, which \<open>useApi\<close> returns, is a number here. \<open>prev\<close> is the
  dependency array of the previous render, \<open>None\<close> at the first.
\<close>

type_synonym effect_deps = "int \<times> int \<times> string \<times> string \<times> nat"

definition refreshDeps :: "list_state \<Rightarrow> nat \<Rightarrow> effect_deps" where
  "refreshDeps st fetchSchedules =
     (currentPage st, pageSize st, searchTerm st, statusFilter st, fetchSchedules)"

definition refreshEffect :: "effect_deps option \<Rightarrow> list_state \<Rightarrow> nat \<Rightarrow> request list" where
  "refreshEffect prev st fetchSchedules =
     (if prev = Some (refreshDeps st fetchSchedules) then []
      else [GetSchedules \<lparr>page_param = currentPage st, size_param = pageSize st,
                          search_param = searchTerm st, status_param = statusFilter st\<rparr>])"

text \<open>
  The action handlers: the requests they issue, in order. \<open>has_data\<close> is the truthiness of
  \<open>response.data\<close> of the awaited call. The state is the one of the render that created
  the handler.
\<close>

definition handleActivate :: "list_state \<Rightarrow> schedule \<Rightarrow> bool \<Rightarrow> request list" where
  "handleActivate st s has_data =
     ActivateSchedule (schedule_id s) #
     (if has_data
      then [GetSchedules \<lparr>page_param = currentPage st, size_param = pageSize st,
                           search_param = searchTerm st, status_param = statusFilter st\<rparr>]
      else [])"

definition handlePause :: "list_state \<Rightarrow> schedule \<Rightarrow> bool \<Rightarrow> request list" where
  "handlePause st s has_data =
     PauseSchedule (schedule_id s) #
     (if has_data
      then [GetSchedules \<lparr>page_param = currentPage st, size_param = pageSize st,
                           search_param = searchTerm st, status_param = statusFilter st\<rparr>]
      else [])"

definition handleDeleteClick :: "schedule \<Rightarrow> list_state \<Rightarrow> list_state" where
  "handleDeleteClick s st = st\<lparr>selectedSchedule := Some s, showDeleteModal := True\<rparr>"

definition handleDeleteConfirm :: "list_state \<Rightarrow> bool \<Rightarrow> request list \<times> list_state" where
  "handleDeleteConfirm st has_data =
     (case selectedSchedule st of
        None \<Rightarrow> ([], st)
      | Some s \<Rightarrow>
          if has_data
          then ([DeleteSchedule (schedule_id s),
                 GetSchedules \<lparr>page_param = currentPage st, size_param = pageSize st,
                               search_param = searchTerm st, status_param = statusFilter st\<rparr>],
                st\<lparr>showDeleteModal := False\<rparr>)
          else ([DeleteSchedule (schedule_id s)], st))"

subsection \<open>The Actions cell, in both versions\<close>

text \<open>
  A control of the cell: its title, its icon, the \<open>disabled\<close> and \<open>isLoading\<close> attributes
  and the handler its \<open>onClick\<close> calls. Part 000 uses \<open>button\<close> elements, which have no
  \<open>isLoading\<close>; part 003 uses the \<open>Button\<close> component.
\<close>

datatype handler =
    HandleViewClick schedule
  | HandleEditClick schedule
  | HandlePause schedule
  | HandleActivate schedule
  | HandleDeleteClick schedule

record control =
  ctl_title :: string
  ctl_icon :: string
  ctl_disabled :: bool
  ctl_isLoading :: bool
  ctl_onClick :: handler

definition actionsCell_000 :: "bool \<Rightarrow> bool \<Rightarrow> schedule \<Rightarrow> control list" where
  "actionsCell_000 isPausing isActivating s =
     [\<lparr>ctl_title = ''View details'', ctl_icon = ''Eye'', ctl_disabled = False,
       ctl_isLoading = False, ctl_onClick = HandleViewClick s\<rparr>,
      \<lparr>ctl_title = ''Edit schedule'', ctl_icon = ''Edit'', ctl_disabled = False,
       ctl_isLoading = False, ctl_onClick = HandleEditClick s\<rparr>,
      (if status s = ACTIVE
       then \<lparr>ctl_title = ''Pause schedule'', ctl_icon = ''Pause'', ctl_disabled = isPausing,
             ctl_isLoading = False, ctl_onClick = HandlePause s\<rparr>
       else \<lparr>ctl_title = ''Activate schedule'', ctl_icon = ''Play'',
             ctl_disabled = (isActivating \<or> status s = COMPLETED),
             ctl_isLoading = False, ctl_onClick = HandleActivate s\<rparr>),
      \<lparr>ctl_title = ''Delete schedule'', ctl_icon = ''Trash2'', ctl_disabled = False,
       ctl_isLoading = False, ctl_onClick = HandleDeleteClick s\<rparr>]"

definition actionsCell_003 :: "bool \<Rightarrow> bool \<Rightarrow> schedule \<Rightarrow> control list" where
  "actionsCell_003 isPausing isActivating s =
     [\<lparr>ctl_title = ''View details'', ctl_icon = ''eye'', ctl_disabled = False,
       ctl_isLoading = False, ctl_onClick = HandleViewClick s\<rparr>,
      \<lparr>ctl_title = ''Edit schedule'', ctl_icon = ''edit'', ctl_disabled = False,
       ctl_isLoading = False, ctl_onClick = HandleEditClick s\<rparr>,
      (if status s = ACTIVE
       then \<lparr>ctl_title = ''Pause schedule'', ctl_icon = ''pause'', ctl_disabled = False,
             ctl_isLoading = isPausing, ctl_onClick = HandlePause s\<rparr>
       else \<lparr>ctl_title = ''Activate schedule'', ctl_icon = ''play'',
             ctl_disabled = (status s = COMPLETED),
             ctl_isLoading = isActivating, ctl_onClick = HandleActivate s\<rparr>),
      \<lparr>ctl_title = ''Delete schedule'', ctl_icon = ''trash'', ctl_disabled = False,
       ctl_isLoading = False, ctl_onClick = HandleDeleteClick s\<rparr>]"

text \<open>
  A click on a control: a disabled button dispatches no click event, so its \<open>onClick\<close> is
  not called. The \<open>Button\<close> component of part 003 is not among the sources; it is taken
  to hand \<open>disabled\<close> and \<open>onClick\<close> to the button it renders.
\<close>

definition click :: "control \<Rightarrow> handler option" where
  "click c = (if ctl_disabled c then None else Some (ctl_onClick c))"

text \<open>
  The requests a handler of the cell issues. Viewing and editing navigate, and the delete
  click opens the modal: none of them sends a request.
\<close>

fun handler_requests :: "list_state \<Rightarrow> bool \<Rightarrow> handler \<Rightarrow> request list" where
  "handler_requests st has_data (HandleViewClick s) = []"
| "handler_requests st has_data (HandleEditClick s) = []"
| "handler_requests st has_data (HandlePause s) = handlePause st s has_data"
| "handler_requests st has_data (HandleActivate s) = handleActivate st s has_data"
| "handler_requests st has_data (HandleDeleteClick s) = []"

definition click_requests :: "list_state \<Rightarrow> bool \<Rightarrow> control \<Rightarrow> request list" where
  "click_requests st has_data c =
     (case click c of None \<Rightarrow> [] | Some h \<Rightarrow> handler_requests st has_data h)"

text \<open>Every request that a click on some control of the cell can issue.\<close>

definition cell_requests :: "list_state \<Rightarrow> bool \<Rightarrow> control list \<Rightarrow> request list" where
  "cell_requests st has_data cell = concat (map (click_requests st has_data) cell)"

definition is_activate_control :: "control \<Rightarrow> bool" where
  "is_activate_control c = (case ctl_onClick c of HandleActivate _ \<Rightarrow> True | _ \<Rightarrow> False)"

section \<open>The schedule form\<close>

text \<open>
  The \<open>ScheduleForm\<close> component of the project continuation guide builds the schedule that
  is sent to the backend. \<open>ScheduleFormData\<close> is its form state (fields prefixed \<open>fd_\<close>),
  the payload of \<open>handleSubmit\<close> is that object with \<open>id\<close>, \<open>nextRunTime\<close> and
  \<open>cronExpression\<close> overwritten (fields prefixed \<open>pl_\<close>). A field set to \<open>undefined\<close> is
  \<open>None\<close>: it is left out of the JSON body.
\<close>

text \<open>
  \<open>rowCount\<close> is a JavaScript number. \<open>handleInputChange\<close> stores
  \<open>parseInt(value, 10)\<close> for a number input, which is an integer or, for an input without
  leading digits, \<open>NaN\<close>; every comparison with \<open>NaN\<close> is false.
\<close>

datatype js_number = Num int | NaN

fun le_zero :: "js_number \<Rightarrow> bool" where
  "le_zero (Num n) = (n \<le> 0)"
| "le_zero NaN = False"

record scheduleFormData =
  fd_name :: string
  fd_templateId :: string
  fd_description :: "string option"
  fd_outputFormat :: string
  fd_rowCount :: js_number
  fd_scheduleType :: schedule_type
  fd_nextRunTime :: "string option"
  fd_cronExpression :: "string option"
  fd_active :: bool

record schedulePayload =
  pl_id :: "string option"
  pl_name :: string
  pl_templateId :: string
  pl_description :: "string option"
  pl_outputFormat :: string
  pl_rowCount :: js_number
  pl_scheduleType :: schedule_type
  pl_nextRunTime :: "string option"
  pl_cronExpression :: "string option"
  pl_active :: bool

text \<open>
  \<open>String.prototype.trim\<close> strips white space and line terminators. A \<open>char\<close> is a code
  unit below 256; the ones that JavaScript strips there are tab (U+0009), line feed
  (U+000A), vertical tab (U+000B), form feed (U+000C), carriage return (U+000D), space
  (U+0020) and no-break space (U+00A0). The other white space of JavaScript (U+FEFF,
  U+2028, U+2029 and the space separators from U+1680 on) lies above 255 and has no
  \<open>char\<close>.
\<close>

definition is_space :: "char \<Rightarrow> bool" where
  "is_space c =
     (c \<in> set [CHR 0x09, CHR 0x0A, CHR 0x0B, CHR 0x0C, CHR 0x0D, CHR 0x20, CHR 0xA0])"

definition trim :: "string \<Rightarrow> string" where
  "trim s = rev (dropWhile is_space (rev (dropWhile is_space s)))"

text \<open>
  \<open>validateForm\<close>: the entries of \<open>errors\<close> in the order the source assigns them; the
  function returns \<open>Object.keys(errors).length === 0\<close>.
\<close>

definition formErrors :: "scheduleFormData \<Rightarrow> (string \<times> string) list" where
  "formErrors formData =
     (if trim (fd_name formData) = [] then [(''name'', ''Name is required'')] else []) @
     (if fd_templateId formData = [] then [(''templateId'', ''Template is required'')] else []) @
     (if le_zero (fd_rowCount formData)
      then [(''rowCount'', ''Row count must be greater than 0'')] else []) @
     (if fd_scheduleType formData = ONE_TIME \<and> \<not> truthy (fd_nextRunTime formData)
      then [(''nextRunTime'', ''Run time is required for one-time schedules'')] else []) @
     (if fd_scheduleType formData = RECURRING \<and> \<not> truthy (fd_cronExpression formData)
      then [(''cronExpression'', ''Cron expression is required for recurring schedules'')]
      else [])"

definition validateForm :: "scheduleFormData \<Rightarrow> bool" where
  "validateForm formData = (length (formErrors formData) = 0)"

text \<open>
  \<open>handleSubmit\<close>: nothing is sent when validation fails; otherwise the payload handed to
  \<open>saveSchedule\<close>. \<open>id\<close> is the route parameter, and \<open>isEditMode\<close> is \<open>Boolean(id)\<close>.
\<close>

definition isEditMode :: "string option \<Rightarrow> bool" where
  "isEditMode ident = truthy ident"

definition handleSubmit :: "string option \<Rightarrow> scheduleFormData \<Rightarrow> schedulePayload option" where
  "handleSubmit ident formData =
     (if \<not> validateForm formData then None
      else Some
        \<lparr>pl_id = (if isEditMode ident then ident else None),
         pl_name = fd_name formData,
         pl_templateId = fd_templateId formData,
         pl_description = fd_description formData,
         pl_outputFormat = fd_outputFormat formData,
         pl_rowCount = fd_rowCount formData,
         pl_scheduleType = fd_scheduleType formData,
         pl_nextRunTime =
           (if fd_scheduleType formData = ONE_TIME then fd_nextRunTime formData else None),
         pl_cronExpression =
           (if fd_scheduleType formData = RECURRING then fd_cronExpression formData else None),
         pl_active = fd_active formData\<rparr>)"

text \<open>The initial form state of the component, and a filled-in recurring form.\<close>

definition initial_formData :: scheduleFormData where
  "initial_formData =
     \<lparr>fd_name = '''', fd_templateId = '''', fd_description = Some '''',
      fd_outputFormat = ''CSV'', fd_rowCount = Num 100, fd_scheduleType = ONE_TIME,
      fd_nextRunTime = Some '''', fd_cronExpression = Some '''', fd_active = True\<rparr>"

definition nightly_formData :: scheduleFormData where
  "nightly_formData =
     initial_formData\<lparr>fd_name := ''Nightly'', fd_templateId := ''T1'',
       fd_scheduleType := RECURRING, fd_cronExpression := Some ''0 0 0 * * ?''\<rparr>"

text \<open>
  Two more form states: a name that is one no-break space, which \<open>trim\<close> empties, and a
  row count of \<open>NaN\<close>, which passes the check \<open>rowCount <= 0\<close>.
\<close>

definition nbsp_name_formData :: scheduleFormData where
  "nbsp_name_formData = nightly_formData\<lparr>fd_name := [CHR 0xA0]\<rparr>"

definition nan_rows_formData :: scheduleFormData where
  "nan_rows_formData = nightly_formData\<lparr>fd_rowCount := NaN\<rparr>"

section \<open>The scheduling engine\<close>

text \<open>
  The engine behind the REST contract (schedule store, trigger evaluator, job executor and
  lifecycle controller) is not among the sources: only the frontend that calls it and
  the guides that describe it are. Every definition of this section is written after the
  specification. Times are natural numbers; schedule ids are the numbers the store hands
  out.
\<close>

text \<open>Modelled from the spec: the error taxonomy of the missing lifecycle controller
  (NotFound, ValidationError, InvalidState).\<close>

datatype engine_error = NotFound | ValidationError | InvalidState

text \<open>Modelled from the spec: the output formats of the missing backend's wire contract.\<close>

datatype output_format = CSV | JSON | XML

text \<open>Modelled from the spec: the persisted Schedule entity of the missing schedule store,
  with the recorded error message and the in-flight mark of a claimed row.\<close>

record sched_row =
  r_name :: string
  r_templateId :: string
  r_scheduleType :: schedule_type
  r_nextRunTime :: nat
  r_cronExpression :: "string option"
  r_lastRunTime :: "nat option"
  r_status :: schedule_status
  r_outputFormat :: output_format
  r_rowCount :: int
  r_errorMessage :: "string option"
  r_inFlight :: bool

text \<open>Modelled from the spec: the state of the missing engine: the schedule store, the next
  id the store hands out, and the log of dispatches to the job executor (schedule id and
  the due occurrence, the row's nextRunTime when it was claimed).\<close>

record engine =
  store :: "(nat \<times> sched_row) list"
  nextId :: nat
  dispatched :: "(nat \<times> nat) list"

text \<open>Modelled from the spec: the cron library of the missing trigger evaluator, taken as a
  parameter: whether an expression parses, and the next occurrence strictly after a time.\<close>

record cron_env =
  validCron :: "string \<Rightarrow> bool"
  nextCron :: "string \<Rightarrow> nat \<Rightarrow> nat"

text \<open>Modelled from the spec: the draft handed to the missing \<open>create\<close> operation.\<close>

record draft =
  d_name :: string
  d_templateId :: string
  d_scheduleType :: schedule_type
  d_nextRunTime :: "nat option"
  d_cronExpression :: "string option"
  d_outputFormat :: output_format
  d_rowCount :: int
  d_paused :: bool

text \<open>Modelled from the spec: the patch handed to the missing \<open>update\<close> operation: the
  definition fields of a schedule, each optional. Status, lastRunTime and the in-flight
  mark are run state and no part of a patch.\<close>

record patch =
  p_name :: "string option"
  p_templateId :: "string option"
  p_scheduleType :: "schedule_type option"
  p_nextRunTime :: "nat option"
  p_cronExpression :: "string option"
  p_outputFormat :: "output_format option"
  p_rowCount :: "int option"

text \<open>Modelled from the spec: reading one row of the missing schedule store, \<open>None\<close> for
  an unknown id.\<close>

definition find_row :: "engine \<Rightarrow> nat \<Rightarrow> sched_row option" where
  "find_row e i = map_of (store e) i"

text \<open>Modelled from the spec: writing one row of the missing schedule store.\<close>

definition put_row :: "nat \<Rightarrow> sched_row \<Rightarrow> engine \<Rightarrow> engine" where
  "put_row i r e = e\<lparr>store := AList.update i r (store e)\<rparr>"

text \<open>Modelled from the spec: removing one row of the missing schedule store.\<close>

definition remove_row :: "nat \<Rightarrow> engine \<Rightarrow> engine" where
  "remove_row i e = e\<lparr>store := AList.delete i (store e)\<rparr>"

text \<open>Modelled from the spec: the recomputation of nextRunTime in the missing lifecycle
  controller: the next cron occurrence after now for a recurring schedule, and for a
  one-time schedule a time that is not before now.\<close>

definition recompute :: "cron_env \<Rightarrow> sched_row \<Rightarrow> nat \<Rightarrow> nat" where
  "recompute env r now =
     (case r_cronExpression r of
        Some c \<Rightarrow> if r_scheduleType r = RECURRING then nextCron env c now
                  else max (r_nextRunTime r) now
      | None \<Rightarrow> max (r_nextRunTime r) now)"

text \<open>Modelled from the spec: the validation of the missing \<open>create\<close>: name and templateId
  present, rowCount positive, nextRunTime for ONE_TIME, a valid cronExpression for
  RECURRING.\<close>

definition valid_draft :: "cron_env \<Rightarrow> draft \<Rightarrow> bool" where
  "valid_draft env d =
     (d_name d \<noteq> [] \<and> d_templateId d \<noteq> [] \<and> 0 < d_rowCount d \<and>
      (case d_scheduleType d of
         ONE_TIME \<Rightarrow> d_nextRunTime d \<noteq> None
       | RECURRING \<Rightarrow>
           (case d_cronExpression d of None \<Rightarrow> False | Some c \<Rightarrow> validCron env c)))"

text \<open>Modelled from the spec: the missing \<open>create\<close> operation: a new row under a fresh id,
  ACTIVE unless the draft asks for PAUSED, carrying only the trigger field of its type.\<close>

definition create :: "cron_env \<Rightarrow> draft \<Rightarrow> nat \<Rightarrow> engine \<Rightarrow> engine_error + engine" where
  "create env d now e =
     (if \<not> valid_draft env d then Inl ValidationError
      else Inr
        ((put_row (nextId e)
           \<lparr>r_name = d_name d, r_templateId = d_templateId d,
            r_scheduleType = d_scheduleType d,
            r_nextRunTime =
              (case d_scheduleType d of
                 ONE_TIME \<Rightarrow> (case d_nextRunTime d of None \<Rightarrow> now | Some t \<Rightarrow> t)
               | RECURRING \<Rightarrow>
                   (case d_cronExpression d of None \<Rightarrow> now | Some c \<Rightarrow> nextCron env c now)),
            r_cronExpression =
              (if d_scheduleType d = RECURRING then d_cronExpression d else None),
            r_lastRunTime = None,
            r_status = (if d_paused d then PAUSED else ACTIVE),
            r_outputFormat = d_outputFormat d, r_rowCount = d_rowCount d,
            r_errorMessage = None, r_inFlight = False\<rparr> e)
         \<lparr>nextId := Suc (nextId e)\<rparr>))"

text \<open>Modelled from the spec: the missing \<open>activate\<close> operation: PAUSED to ACTIVE
  (recomputing a stale nextRunTime), ERROR to ACTIVE (clearing the error, recomputing
  nextRunTime), nothing for ACTIVE, InvalidState for COMPLETED, NotFound for an unknown
  id.\<close>

definition activate :: "cron_env \<Rightarrow> nat \<Rightarrow> nat \<Rightarrow> engine \<Rightarrow> engine_error + engine" where
  "activate env i now e =
     (case find_row e i of
        None \<Rightarrow> Inl NotFound
      | Some r \<Rightarrow>
          (case r_status r of
             COMPLETED \<Rightarrow> Inl InvalidState
           | ACTIVE \<Rightarrow> Inr e
           | PAUSED \<Rightarrow>
               Inr (put_row i
                 (r\<lparr>r_status := ACTIVE,
                    r_nextRunTime :=
                      (if r_nextRunTime r < now then recompute env r now
                       else r_nextRunTime r)\<rparr>) e)
           | ERROR \<Rightarrow>
               Inr (put_row i
                 (r\<lparr>r_status := ACTIVE, r_errorMessage := None,
                    r_nextRunTime := recompute env r now\<rparr>) e)))"

text \<open>Modelled from the spec: the missing \<open>pause\<close> operation: ACTIVE to PAUSED, InvalidState
  otherwise, NotFound for an unknown id.\<close>

definition pause :: "nat \<Rightarrow> engine \<Rightarrow> engine_error + engine" where
  "pause i e =
     (case find_row e i of
        None \<Rightarrow> Inl NotFound
      | Some r \<Rightarrow>
          if r_status r = ACTIVE then Inr (put_row i (r\<lparr>r_status := PAUSED\<rparr>) e)
          else Inl InvalidState)"

text \<open>Modelled from the spec: the trigger fields of the missing \<open>update\<close>: a schedule
  that is or becomes ONE_TIME takes its nextRunTime from the patch (required when the
  type changes) and drops the cron expression; one that is or becomes RECURRING takes a
  valid cron expression from the patch (required when the type changes) and computes
  nextRunTime from it. Supplying the trigger field of the other type is a validation
  error.\<close>

definition patch_trigger :: "cron_env \<Rightarrow> sched_row \<Rightarrow> patch \<Rightarrow> nat \<Rightarrow> engine_error + sched_row" where
  "patch_trigger env r p now =
     (let ty = (case p_scheduleType p of None \<Rightarrow> r_scheduleType r | Some t \<Rightarrow> t);
          changed = (ty \<noteq> r_scheduleType r)
      in case ty of
           ONE_TIME \<Rightarrow>
             (if p_cronExpression p \<noteq> None then Inl ValidationError
              else case p_nextRunTime p of
                     None \<Rightarrow> if changed then Inl ValidationError
                              else Inr (r\<lparr>r_cronExpression := None\<rparr>)
                   | Some t \<Rightarrow>
                       Inr (r\<lparr>r_scheduleType := ONE_TIME, r_nextRunTime := t,
                              r_cronExpression := None\<rparr>))
         | RECURRING \<Rightarrow>
             (if p_nextRunTime p \<noteq> None then Inl ValidationError
              else case p_cronExpression p of
                     None \<Rightarrow> if changed then Inl ValidationError else Inr r
                   | Some c \<Rightarrow>
                       if validCron env c
                       then Inr (r\<lparr>r_scheduleType := RECURRING,
                                   r_nextRunTime := nextCron env c now,
                                   r_cronExpression := Some c\<rparr>)
                       else Inl ValidationError))"

text \<open>Modelled from the spec: the other fields of the missing \<open>update\<close>, validated as in
  \<open>create\<close>.\<close>

definition patch_fields :: "sched_row \<Rightarrow> patch \<Rightarrow> engine_error + sched_row" where
  "patch_fields r p =
     (let n = (case p_name p of None \<Rightarrow> r_name r | Some v \<Rightarrow> v);
          t = (case p_templateId p of None \<Rightarrow> r_templateId r | Some v \<Rightarrow> v);
          f = (case p_outputFormat p of None \<Rightarrow> r_outputFormat r | Some v \<Rightarrow> v);
          c = (case p_rowCount p of None \<Rightarrow> r_rowCount r | Some v \<Rightarrow> v)
      in if n = [] \<or> t = [] \<or> c \<le> 0 then Inl ValidationError
         else Inr (r\<lparr>r_name := n, r_templateId := t, r_outputFormat := f, r_rowCount := c\<rparr>))"

text \<open>Modelled from the spec: the missing \<open>update\<close> operation: NotFound for an unknown id,
  InvalidState while the schedule is being executed, a validation error for a bad patch,
  and the patched row otherwise.\<close>

definition update :: "cron_env \<Rightarrow> nat \<Rightarrow> patch \<Rightarrow> nat \<Rightarrow> engine \<Rightarrow> engine_error + engine" where
  "update env i p now e =
     (case find_row e i of
        None \<Rightarrow> Inl NotFound
      | Some r \<Rightarrow>
          if r_inFlight r then Inl InvalidState
          else case patch_fields r p of
                 Inl err \<Rightarrow> Inl err
               | Inr r1 \<Rightarrow>
                   (case patch_trigger env r1 p now of
                      Inl err \<Rightarrow> Inl err
                    | Inr r2 \<Rightarrow> Inr (put_row i r2 e)))"

text \<open>Modelled from the spec: the missing \<open>delete\<close> operation: the row is removed, NotFound
  for an unknown id.\<close>

definition delete :: "nat \<Rightarrow> engine \<Rightarrow> engine_error + engine" where
  "delete i e =
     (case find_row e i of
        None \<Rightarrow> Inl NotFound
      | Some r \<Rightarrow> Inr (remove_row i e))"

text \<open>Modelled from the spec: the claim step of the missing trigger evaluator on one row:
  an ACTIVE row that is due and not in flight is marked in flight and dispatched; any
  other row is left alone.\<close>

definition claim :: "nat \<Rightarrow> nat \<Rightarrow> engine \<Rightarrow> engine" where
  "claim now i e =
     (case find_row e i of
        None \<Rightarrow> e
      | Some r \<Rightarrow>
          if r_status r = ACTIVE \<and> r_nextRunTime r \<le> now \<and> \<not> r_inFlight r
          then (put_row i (r\<lparr>r_inFlight := True\<rparr>) e)
                 \<lparr>dispatched := dispatched e @ [(i, r_nextRunTime r)]\<rparr>
          else e)"

text \<open>Modelled from the spec: one scan of the missing trigger evaluator: the claim step on
  every id the store has handed out.\<close>

definition scan :: "nat \<Rightarrow> engine \<Rightarrow> engine" where
  "scan now e = fold (claim now) [0..<nextId e] e"

text \<open>Modelled from the spec: the missing job executor reporting success for a row in
  flight: lastRunTime is now; a ONE_TIME schedule becomes COMPLETED, a RECURRING one keeps
  its status and gets the next cron occurrence.\<close>

definition jobSuccess :: "cron_env \<Rightarrow> nat \<Rightarrow> nat \<Rightarrow> engine \<Rightarrow> engine" where
  "jobSuccess env i now e =
     (case find_row e i of
        None \<Rightarrow> e
      | Some r \<Rightarrow>
          if \<not> r_inFlight r then e
          else case r_scheduleType r of
                 ONE_TIME \<Rightarrow>
                   put_row i (r\<lparr>r_lastRunTime := Some now, r_inFlight := False,
                                r_status := COMPLETED\<rparr>) e
               | RECURRING \<Rightarrow>
                   put_row i (r\<lparr>r_lastRunTime := Some now, r_inFlight := False,
                                r_nextRunTime := recompute env r now\<rparr>) e)"

text \<open>Modelled from the spec: the missing job executor reporting failure for a row in
  flight: status ERROR with the message recorded, nextRunTime and lastRunTime as they
  were.\<close>

definition jobFailure :: "nat \<Rightarrow> string \<Rightarrow> engine \<Rightarrow> engine" where
  "jobFailure i msg e =
     (case find_row e i of
        None \<Rightarrow> e
      | Some r \<Rightarrow>
          if \<not> r_inFlight r then e
          else put_row i (r\<lparr>r_status := ERROR, r_errorMessage := Some msg,
                            r_inFlight := False\<rparr>) e)"

text \<open>Modelled from the spec: the operations of the missing engine as events.\<close>

datatype event =
    Create draft nat
  | Activate nat nat
  | Pause nat
  | Update nat patch nat
  | Delete nat
  | Scan nat
  | JobSuccess nat nat
  | JobFailure nat string

text \<open>Modelled from the spec: one operation of the missing engine, with its error.\<close>

fun step :: "cron_env \<Rightarrow> event \<Rightarrow> engine \<Rightarrow> engine_error + engine" where
  "step env (Create d now) e = create env d now e"
| "step env (Activate i now) e = activate env i now e"
| "step env (Pause i) e = pause i e"
| "step env (Update i p now) e = update env i p now e"
| "step env (Delete i) e = delete i e"
| "step env (Scan now) e = Inr (scan now e)"
| "step env (JobSuccess i now) e = Inr (jobSuccess env i now e)"
| "step env (JobFailure i msg) e = Inr (jobFailure i msg e)"

text \<open>Modelled from the spec: the state of the missing engine after an operation: a failed
  operation changes nothing.\<close>

definition apply_event :: "cron_env \<Rightarrow> engine \<Rightarrow> event \<Rightarrow> engine" where
  "apply_event env e ev = (case step env ev e of Inl err \<Rightarrow> e | Inr e' \<Rightarrow> e')"

text \<open>Modelled from the spec: a history of operations of the missing engine.\<close>

definition run :: "cron_env \<Rightarrow> engine \<Rightarrow> event list \<Rightarrow> engine" where
  "run env e evs = foldl (apply_event env) e evs"

text \<open>Modelled from the spec: the status of a schedule in the missing store, \<open>None\<close> for
  an unknown id.\<close>

definition status_of :: "engine \<Rightarrow> nat \<Rightarrow> schedule_status option" where
  "status_of e i = map_option r_status (find_row e i)"

text \<open>Modelled from the spec: the dispatches of one schedule id in the missing engine's
  log.\<close>

definition dispatches_of :: "engine \<Rightarrow> nat \<Rightarrow> (nat \<times> nat) list" where
  "dispatches_of e i = filter (\<lambda>d. fst d = i) (dispatched e)"

text \<open>Modelled from the spec: the well-formed states of the missing engine: every stored id
  was handed out by the store, and a row in flight is ACTIVE or PAUSED (claimed while
  ACTIVE; pausing does not abort the run).\<close>

definition engine_inv :: "engine \<Rightarrow> bool" where
  "engine_inv e =
     list_all
       (\<lambda>(i, r). i < nextId e \<and>
          (if r_inFlight r then r_status r = ACTIVE \<or> r_status r = PAUSED else True))
       (store e)"

text \<open>Modelled from the spec: the initial state of the missing engine, without
  schedules.\<close>

definition empty_engine :: engine where
  "empty_engine = \<lparr>store = [], nextId = 0, dispatched = []\<rparr>"

text \<open>Modelled from the spec: a stand-in for the cron library of the missing trigger
  evaluator, for the examples: every expression is valid, the next occurrence is one day
  later.\<close>

definition daily_env :: cron_env where
  "daily_env = \<lparr>validCron = (\<lambda>c. True), nextCron = (\<lambda>c now. now + 86400)\<rparr>"

text \<open>Modelled from the spec: a draft for the missing \<open>create\<close> operation: a one-time
  schedule due at time 5.\<close>

definition once_draft :: draft where
  "once_draft =
     \<lparr>d_name = ''Once'', d_templateId = ''T1'', d_scheduleType = ONE_TIME,
      d_nextRunTime = Some 5, d_cronExpression = None, d_outputFormat = CSV,
      d_rowCount = 100, d_paused = False\<rparr>"

text \<open>Modelled from the spec: a row of the missing store: the one-time schedule of
  \<open>once_draft\<close>, claimed and in flight.\<close>

definition claimed_row :: sched_row where
  "claimed_row =
     \<lparr>r_name = ''Once'', r_templateId = ''T1'', r_scheduleType = ONE_TIME,
      r_nextRunTime = 5, r_cronExpression = None, r_lastRunTime = None,
      r_status = ACTIVE, r_outputFormat = CSV, r_rowCount = 100,
      r_errorMessage = None, r_inFlight = True\<rparr>"

text \<open>Modelled from the spec: a state of the missing engine: \<open>once_draft\<close> created and
  claimed by a scan at time 10.\<close>

definition claimed_engine :: engine where
  "claimed_engine =
     \<lparr>store = [(0, claimed_row)], nextId = 1, dispatched = [(0, 5)]\<rparr>"

text \<open>Modelled from the spec: a row of the missing store: the same schedule after its
  successful run at time 12.\<close>

definition completed_row :: sched_row where
  "completed_row =
     claimed_row\<lparr>r_lastRunTime := Some 12, r_inFlight := False, r_status := COMPLETED\<rparr>"

text \<open>Modelled from the spec: a state of the missing engine: the claimed schedule after the
  job executor reported success.\<close>

definition completed_engine :: engine where
  "completed_engine =
     \<lparr>store = [(0, completed_row)], nextId = 1, dispatched = [(0, 5)]\<rparr>"

text \<open>A completed one-time schedule as the list receives it.\<close>

definition completed_schedule :: schedule where
  "completed_schedule =
     \<lparr>schedule_id = ''0'', name = ''Once'', templateId = ''T1'',
      templateName = ''Customers'', status = COMPLETED, scheduleType = ONE_TIME,
      nextRunTime = ''2026-01-01T00:00:00'', lastRunTime = Some ''2026-01-01T00:00:07'',
      cronExpression = None, outputFormat = ''CSV'', rowCount = 100\<rparr>"

text \<open>Modelled from the spec: the invariant of the missing store's data model: a row carries
  a cron expression exactly when its schedule type is RECURRING.\<close>

definition cron_inv :: "engine \<Rightarrow> bool" where
  "cron_inv e =
     list_all (\<lambda>(i, r). (r_cronExpression r \<noteq> None) = (r_scheduleType r = RECURRING))
       (store e)"

text \<open>Modelled from the spec: the claim steps of one scan of the missing trigger evaluator,
  in the order the scan takes them: the time the evaluator reads and the id of the row
  it locks.\<close>

definition scan_steps :: "nat \<Rightarrow> engine \<Rightarrow> (nat \<times> nat) list" where
  "scan_steps now e = map (Pair now) [0..<nextId e]"

text \<open>Modelled from the spec: a sequence of claim steps of the missing trigger evaluator.
  The claim on a row is the atomic unit of the store, so evaluator instances that scan
  at the same time produce an interleaving of their claim steps, which is such a
  sequence.\<close>

definition claims :: "(nat \<times> nat) list \<Rightarrow> engine \<Rightarrow> engine" where
  "claims steps e = fold (\<lambda>(now, i). claim now i) steps e"

text \<open>Modelled from the spec: a row of the missing store: the one-time schedule of
  \<open>once_draft\<close>, due at time 5 and not claimed.\<close>

definition due_row :: sched_row where
  "due_row = claimed_row\<lparr>r_inFlight := False\<rparr>"

text \<open>Modelled from the spec: a state of the missing engine: \<open>once_draft\<close> created twice,
  nothing dispatched.\<close>

definition two_due_engine :: engine where
  "two_due_engine = \<lparr>store = [(0, due_row), (1, due_row)], nextId = 2, dispatched = []\<rparr>"

text \<open>Modelled from the spec: a recurring draft for the missing \<open>create\<close> operation.\<close>

definition nightly_draft :: draft where
  "nightly_draft =
     \<lparr>d_name = ''Nightly'', d_templateId = ''T1'', d_scheduleType = RECURRING,
      d_nextRunTime = None, d_cronExpression = Some ''0 0 0 * * ?'', d_outputFormat = CSV,
      d_rowCount = 100, d_paused = False\<rparr>"

text \<open>Modelled from the spec: the rows the claim step of the missing trigger evaluator can
  take: ACTIVE and not in flight.\<close>

definition claimable :: "engine \<Rightarrow> nat \<Rightarrow> bool" where
  "claimable e i =
     (case find_row e i of None \<Rightarrow> False | Some r \<Rightarrow> r_status r = ACTIVE \<and> \<not> r_inFlight r)"

text \<open>Modelled from the spec: a row of the missing store: the recurring schedule of
  \<open>nightly_draft\<close>, created at time 0 under \<open>daily_env\<close>.\<close>

definition nightly_row :: sched_row where
  "nightly_row =
     \<lparr>r_name = ''Nightly'', r_templateId = ''T1'', r_scheduleType = RECURRING,
      r_nextRunTime = 86400, r_cronExpression = Some ''0 0 0 * * ?'',
      r_lastRunTime = None, r_status = ACTIVE, r_outputFormat = CSV,
      r_rowCount = 100, r_errorMessage = None, r_inFlight = False\<rparr>"

text \<open>The payload that the schedule form sends for \<open>nightly_formData\<close>.\<close>

definition nightly_payload :: schedulePayload where
  "nightly_payload =
     \<lparr>pl_id = None, pl_name = ''Nightly'', pl_templateId = ''T1'',
      pl_description = Some '''', pl_outputFormat = ''CSV'', pl_rowCount = Num 100,
      pl_scheduleType = RECURRING, pl_nextRunTime = None,
      pl_cronExpression = Some ''0 0 0 * * ?'', pl_active = True\<rparr>"

section \<open>Properties of the schedule list\<close>

text \<open>
  Claim C1. Every schedule the frontend handles has a status that is exactly one of the
  strings ACTIVE, PAUSED, COMPLETED, ERROR and a schedule type that is exactly one of
  ONE_TIME, RECURRING; the status filter offers exactly these four status values after the
  empty all-statuses value, spelled as the wire contract spells them.
\<close>

theorem C1_enum_values_match_wire_contract:
  "(\<forall>s :: schedule. status_literal (status s) \<in> set wire_status_values)
   \<and> (\<forall>s :: schedule. scheduleType_literal (scheduleType s) \<in> set wire_scheduleType_values)
   \<and> map status_literal [ACTIVE, PAUSED, COMPLETED, ERROR] = wire_status_values
   \<and> map scheduleType_literal [ONE_TIME, RECURRING] = wire_scheduleType_values
   \<and> map fst statusFilterOptions = '''' # wire_status_values
   \<and> range status_literal = set wire_status_values
   \<and> range scheduleType_literal = set wire_scheduleType_values"
proof -
  have st: "status_literal x \<in> set wire_status_values" for x
    by (cases x) (simp_all add: wire_status_values_def)
  have ty: "scheduleType_literal y \<in> set wire_scheduleType_values" for y
    by (cases y) (simp_all add: wire_scheduleType_values_def)
  have rs: "range status_literal = set wire_status_values"
  proof
    show "range status_literal \<subseteq> set wire_status_values" using st by blast
    have "set wire_status_values = status_literal ` {ACTIVE, PAUSED, COMPLETED, ERROR}"
      by (simp add: wire_status_values_def)
    then show "set wire_status_values \<subseteq> range status_literal" by blast
  qed
  have rt: "range scheduleType_literal = set wire_scheduleType_values"
  proof
    show "range scheduleType_literal \<subseteq> set wire_scheduleType_values" using ty by blast
    have "set wire_scheduleType_values = scheduleType_literal ` {ONE_TIME, RECURRING}"
      by (simp add: wire_scheduleType_values_def)
    then show "set wire_scheduleType_values \<subseteq> range scheduleType_literal" by blast
  qed
  have m1: "map status_literal [ACTIVE, PAUSED, COMPLETED, ERROR] = wire_status_values"
    by (simp add: wire_status_values_def)
  have m2: "map scheduleType_literal [ONE_TIME, RECURRING] = wire_scheduleType_values"
    by (simp add: wire_scheduleType_values_def)
  have m3: "map fst statusFilterOptions = '''' # wire_status_values"
    by (simp add: statusFilterOptions_def wire_status_values_def)
  from st ty m1 m2 m3 rs rt show ?thesis by blast
qed

text \<open>
  Claim C9. Every change of the search term and every change of the status filter sets the
  current page to 0, the first page, whatever the page was before.
\<close>

theorem C9_filter_change_resets_page:
  "currentPage (handleSearchChange v st) = 0
   \<and> searchTerm (handleSearchChange v st) = v
   \<and> currentPage (handleStatusFilterChange w st) = 0
   \<and> statusFilter (handleStatusFilterChange w st) = w"
  by (simp add: handleSearchChange_def handleStatusFilterChange_def)

text \<open>
  Claim C10. A schedule without \<open>lastRunTime\<close> shows the literal string Never in the Last
  Run column, the date formatter turns the empty string into the literal string N/A, and
  in neither case is \<open>Date\<close> parsing reached: the Last Run cell reaches it exactly when
  \<open>lastRunTime\<close> is present and not empty.
\<close>

theorem C10_absent_run_times:
  "lastRunCell (s\<lparr>lastRunTime := None\<rparr>) = Literal ''Never''
   \<and> formatDate '''' = Literal ''N/A''
   \<and> \<not> reaches_Date (lastRunCell (s\<lparr>lastRunTime := None\<rparr>))
   \<and> \<not> reaches_Date (formatDate '''')
   \<and> reaches_Date (lastRunCell s) = truthy (lastRunTime s)"
  by (cases "lastRunTime s") (simp_all add: lastRunCell_def formatDate_def)

text \<open>
  Claim C8. For every schedule in which \<open>cronExpression\<close> is present exactly when
  \<open>scheduleType\<close> is RECURRING, the two versions of the list render the same Type label:
  part 000, which branches on \<open>scheduleType === 'ONE_TIME'\<close>, and part 003, which branches
  on \<open>cronExpression\<close> being present, label the schedule One-time or Recurring alike.
  Present is what the test \<open>schedule.cronExpression ? ... : ...\<close> of part 003 takes for
  present: the truthiness of the field.
\<close>

theorem C8_type_labels_agree:
  assumes "truthy (cronExpression s) = (scheduleType s = RECURRING)"
  shows "snd (typeCell_000 s) = typeCell_003 s"
proof (cases "scheduleType s")
  case ONE_TIME
  with assms show ?thesis by (simp add: typeCell_000_def typeCell_003_def)
next
  case RECURRING
  with assms show ?thesis by (simp add: typeCell_000_def typeCell_003_def)
qed

theorem C8_type_labels_agree_witness:
  "truthy (cronExpression nightly_schedule) = (scheduleType nightly_schedule = RECURRING)
   \<and> snd (typeCell_000 nightly_schedule) = ''Recurring''
   \<and> typeCell_003 nightly_schedule = ''Recurring''
   \<and> truthy (cronExpression once_schedule) = (scheduleType once_schedule = RECURRING)
   \<and> snd (typeCell_000 once_schedule) = ''One-time''
   \<and> typeCell_003 once_schedule = ''One-time''"
proof -
  have h: "truthy (cronExpression nightly_schedule) = (scheduleType nightly_schedule = RECURRING)"
    by (simp add: nightly_schedule_def)
  have k: "truthy (cronExpression once_schedule) = (scheduleType once_schedule = RECURRING)"
    by (simp add: once_schedule_def)
  from C8_type_labels_agree [OF h] C8_type_labels_agree [OF k] h k show ?thesis
    by (simp add: nightly_schedule_def once_schedule_def typeCell_000_def)
qed

text \<open>
  Claim C4, as stated: the pagination uses the page's \<open>totalPages\<close> and falls back to 1
  only when the response data is absent. It fails for the page of an empty list, whose
  \<open>totalPages\<close> is 0: \<open>totalPages || 1\<close> takes 0 for falsy and the pagination gets 1.
\<close>

theorem C4_zero_pages_counterexample:
  "page_of empty_page_response
     = Some \<lparr>content = Some [], totalElements = Some 0, totalPages = Some 0\<rparr>
   \<and> pg_totalPages (tablePagination initial_state empty_page_response) = 1
   \<and> pg_totalPages (tablePagination initial_state empty_page_response) \<noteq> 0"
  by (simp add: empty_page_response_def page_of_def tablePagination_def)

text \<open>
  Claim C4, amended: the response is read as a page object with the fields \<open>content\<close>,
  \<open>totalElements\<close> and \<open>totalPages\<close>; the table renders exactly the \<open>content\<close> array, the
  pagination's item count is \<open>totalElements\<close>, and its page count is \<open>totalPages\<close> unless
  that is 0, where it is 1; without response data the three are the empty list, 1 and 0.
  The current page and the page size come from the component state.
\<close>

theorem C4_page_object_reading:
  "tableData None = []
   \<and> pg_totalPages (tablePagination st None) = 1
   \<and> pg_totalItems (tablePagination st None) = 0
   \<and> tableData (Some \<lparr>data = None\<rparr>) = []
   \<and> pg_totalPages (tablePagination st (Some \<lparr>data = None\<rparr>)) = 1
   \<and> pg_totalItems (tablePagination st (Some \<lparr>data = None\<rparr>)) = 0
   \<and> tableData (Some \<lparr>data = Some \<lparr>content = Some c, totalElements = te, totalPages = tp\<rparr>\<rparr>) = c
   \<and> pg_totalItems (tablePagination st
        (Some \<lparr>data = Some \<lparr>content = co, totalElements = Some n, totalPages = tp\<rparr>\<rparr>)) = n
   \<and> pg_totalPages (tablePagination st
        (Some \<lparr>data = Some \<lparr>content = co, totalElements = te, totalPages = Some m\<rparr>\<rparr>))
       = (if m = 0 then 1 else m)
   \<and> pg_currentPage (tablePagination st sd) = currentPage st
   \<and> pg_pageSize (tablePagination st sd) = pageSize st"
  by (simp add: tableData_def tablePagination_def page_of_def)

text \<open>
  Claim C5. Every fetch of the schedule list passes the four parameters \<open>page\<close>, \<open>size\<close>,
  \<open>search\<close> and \<open>status\<close>, which are the current page, the page size, the search term and
  the status filter of the component state: in the initial arguments of \<open>useApi\<close>, in the
  refresh effect and after a successful activate, pause or delete. When one of the four
  values differs from its value at the previous render, the refresh effect issues a fetch
  with the new values.
\<close>

theorem C5_fetch_parameters:
  "(currentPage st' \<noteq> currentPage st \<or> pageSize st' \<noteq> pageSize st
      \<or> searchTerm st' \<noteq> searchTerm st \<or> statusFilter st' \<noteq> statusFilter st
    \<longrightarrow> refreshEffect (Some (refreshDeps st f)) st' f'
          = [GetSchedules \<lparr>page_param = currentPage st', size_param = pageSize st',
                            search_param = searchTerm st', status_param = statusFilter st'\<rparr>])
   \<and> refreshEffect None st f
        = [GetSchedules \<lparr>page_param = currentPage st, size_param = pageSize st,
                          search_param = searchTerm st, status_param = statusFilter st\<rparr>]
   \<and> set (fetch_filters (refreshEffect prev st f))
        \<subseteq> {\<lparr>page_param = currentPage st, size_param = pageSize st,
             search_param = searchTerm st, status_param = statusFilter st\<rparr>}
   \<and> set (useApi_initialArgs st)
        = {\<lparr>page_param = currentPage st, size_param = pageSize st,
             search_param = searchTerm st, status_param = statusFilter st\<rparr>}
   \<and> set (fetch_filters (handleActivate st s d))
        \<subseteq> {\<lparr>page_param = currentPage st, size_param = pageSize st,
             search_param = searchTerm st, status_param = statusFilter st\<rparr>}
   \<and> set (fetch_filters (handlePause st s d))
        \<subseteq> {\<lparr>page_param = currentPage st, size_param = pageSize st,
             search_param = searchTerm st, status_param = statusFilter st\<rparr>}
   \<and> set (fetch_filters (fst (handleDeleteConfirm st d)))
        \<subseteq> {\<lparr>page_param = currentPage st, size_param = pageSize st,
             search_param = searchTerm st, status_param = statusFilter st\<rparr>}"
proof -
  have eff: "refreshEffect (Some (refreshDeps st f)) st' f'
          = [GetSchedules \<lparr>page_param = currentPage st', size_param = pageSize st',
                            search_param = searchTerm st', status_param = statusFilter st'\<rparr>]"
    if "currentPage st' \<noteq> currentPage st \<or> pageSize st' \<noteq> pageSize st
      \<or> searchTerm st' \<noteq> searchTerm st \<or> statusFilter st' \<noteq> statusFilter st"
    using that by (auto simp add: refreshEffect_def refreshDeps_def)
  have mount: "refreshEffect None st f
        = [GetSchedules \<lparr>page_param = currentPage st, size_param = pageSize st,
                          search_param = searchTerm st, status_param = statusFilter st\<rparr>]"
    by (simp add: refreshEffect_def)
  have e: "set (fetch_filters (refreshEffect prev st f))
        \<subseteq> {\<lparr>page_param = currentPage st, size_param = pageSize st,
             search_param = searchTerm st, status_param = statusFilter st\<rparr>}"
    by (simp add: refreshEffect_def)
  have i: "set (useApi_initialArgs st)
        = {\<lparr>page_param = currentPage st, size_param = pageSize st,
             search_param = searchTerm st, status_param = statusFilter st\<rparr>}"
    by (simp add: useApi_initialArgs_def)
  have a: "set (fetch_filters (handleActivate st s d))
        \<subseteq> {\<lparr>page_param = currentPage st, size_param = pageSize st,
             search_param = searchTerm st, status_param = statusFilter st\<rparr>}"
    by (simp add: handleActivate_def)
  have p: "set (fetch_filters (handlePause st s d))
        \<subseteq> {\<lparr>page_param = currentPage st, size_param = pageSize st,
             search_param = searchTerm st, status_param = statusFilter st\<rparr>}"
    by (simp add: handlePause_def)
  have dl: "set (fetch_filters (fst (handleDeleteConfirm st d)))
        \<subseteq> {\<lparr>page_param = currentPage st, size_param = pageSize st,
             search_param = searchTerm st, status_param = statusFilter st\<rparr>}"
    by (simp add: handleDeleteConfirm_def split: option.split)
  from eff mount e i a p dl show ?thesis by blast
qed

theorem C5_fetch_parameters_witness:
  "currentPage (handleSearchChange ''abc'' (initial_state\<lparr>currentPage := 3\<rparr>))
     \<noteq> currentPage (initial_state\<lparr>currentPage := 3\<rparr>)
   \<and> refreshEffect (Some (refreshDeps (initial_state\<lparr>currentPage := 3\<rparr>) 0))
        (handleSearchChange ''abc'' (initial_state\<lparr>currentPage := 3\<rparr>)) 0
      = [GetSchedules \<lparr>page_param = 0, size_param = 10,
                        search_param = ''abc'', status_param = ''''\<rparr>]"
proof -
  have h: "currentPage (handleSearchChange ''abc'' (initial_state\<lparr>currentPage := 3\<rparr>))
     \<noteq> currentPage (initial_state\<lparr>currentPage := 3\<rparr>)"
    by (simp add: handleSearchChange_def initial_state_def)
  from h C5_fetch_parameters [of "handleSearchChange ''abc'' (initial_state\<lparr>currentPage := 3\<rparr>)"
      "initial_state\<lparr>currentPage := 3\<rparr>" 0 0]
  show ?thesis by (simp add: handleSearchChange_def initial_state_def)
qed

section \<open>Properties of the scheduling engine\<close>

text \<open>
  Helper facts about the engine: what each operation does to the rows, that the
  well-formedness of the state is kept by every operation, and that a schedule that is
  gone or COMPLETED stays so and is not dispatched, whatever operations follow.
\<close>

lemma set_update_subset: "set (AList.update k v al) \<subseteq> insert (k, v) (set al)"
  by (induction al) auto

lemma set_delete_subset: "set (AList.delete k al) \<subseteq> set al"
  by (induction al) auto

lemma find_row_simps [simp]:
  "find_row (put_row i r e) j = (if j = i then Some r else find_row e j)"
  "find_row (remove_row i e) j = (if j = i then None else find_row e j)"
  "find_row (e\<lparr>nextId := n\<rparr>) j = find_row e j"
  "find_row (e\<lparr>dispatched := ds\<rparr>) j = find_row e j"
  by (simp_all add: find_row_def put_row_def remove_row_def update_conv' delete_conv')

lemma put_row_simps [simp]:
  "nextId (put_row i r e) = nextId e"
  "dispatched (put_row i r e) = dispatched e"
  "nextId (remove_row i e) = nextId e"
  "dispatched (remove_row i e) = dispatched e"
  by (simp_all add: put_row_def remove_row_def)

lemma engine_inv_iff:
  "engine_inv e \<longleftrightarrow>
     (\<forall>i r. (i, r) \<in> set (store e) \<longrightarrow>
        i < nextId e \<and> (r_inFlight r \<longrightarrow> r_status r = ACTIVE \<or> r_status r = PAUSED))"
  by (auto simp add: engine_inv_def list_all_iff)

lemma inv_row:
  "engine_inv e \<Longrightarrow> find_row e i = Some r \<Longrightarrow>
   i < nextId e \<and> (r_inFlight r \<longrightarrow> r_status r = ACTIVE \<or> r_status r = PAUSED)"
  unfolding engine_inv_iff find_row_def by (blast dest: map_of_SomeD)

lemma inv_put_row:
  assumes "engine_inv e" and "i < nextId e"
    and "r_inFlight r \<longrightarrow> r_status r = ACTIVE \<or> r_status r = PAUSED"
  shows "engine_inv (put_row i r e)"
  using assms set_update_subset [of i r "store e"]
  unfolding engine_inv_iff by (auto simp add: put_row_def)

lemma inv_create:
  assumes "engine_inv e" and "\<not> r_inFlight r"
  shows "engine_inv ((put_row (nextId e) r e)\<lparr>nextId := Suc (nextId e)\<rparr>)"
  using assms set_update_subset [of "nextId e" r "store e"]
  unfolding engine_inv_iff by (auto simp add: put_row_def less_Suc_eq)

lemma inv_remove_row: "engine_inv e \<Longrightarrow> engine_inv (remove_row i e)"
  using set_delete_subset [of i "store e"]
  unfolding engine_inv_iff by (auto simp add: remove_row_def)

lemma inv_dispatched [simp]: "engine_inv (e\<lparr>dispatched := ds\<rparr>) = engine_inv e"
  by (simp add: engine_inv_def)

lemma claim_nextId [simp]: "nextId (claim now j e) = nextId e"
  by (simp add: claim_def split: option.split)

lemma claim_status [simp]: "status_of (claim now j e) i = status_of e i"
  by (auto simp add: claim_def status_of_def split: option.split)

lemma claim_inv: "engine_inv e \<Longrightarrow> engine_inv (claim now j e)"
  by (auto simp add: claim_def split: option.split intro!: inv_put_row dest: inv_row)

lemma claim_dispatches:
  "status_of e i \<noteq> Some ACTIVE \<Longrightarrow> dispatches_of (claim now j e) i = dispatches_of e i"
  by (auto simp add: claim_def status_of_def dispatches_of_def split: option.split)

lemma fold_claim_nextId [simp]: "nextId (fold (claim now) js e) = nextId e"
  by (induction js arbitrary: e) simp_all

lemma fold_claim_status [simp]: "status_of (fold (claim now) js e) i = status_of e i"
  by (induction js arbitrary: e) simp_all

lemma fold_claim_inv: "engine_inv e \<Longrightarrow> engine_inv (fold (claim now) js e)"
  by (induction js arbitrary: e) (simp_all add: claim_inv)

lemma fold_claim_dispatches:
  "status_of e i \<noteq> Some ACTIVE \<Longrightarrow>
   dispatches_of (fold (claim now) js e) i = dispatches_of e i"
  by (induction js arbitrary: e) (simp_all add: claim_dispatches)

lemma patch_fields_run_state:
  "patch_fields r p = Inr r' \<Longrightarrow> r_status r' = r_status r \<and> r_inFlight r' = r_inFlight r"
  by (auto simp add: patch_fields_def Let_def split: if_splits)

lemma patch_trigger_run_state:
  "patch_trigger env r p now = Inr r' \<Longrightarrow>
   r_status r' = r_status r \<and> r_inFlight r' = r_inFlight r"
  by (auto simp add: patch_trigger_def Let_def
      split: if_splits option.splits schedule_type.splits)

lemma update_row:
  assumes "update env j p now e = Inr e'"
  shows "\<exists>r r'. find_row e j = Some r \<and> \<not> r_inFlight r \<and> e' = put_row j r' e
           \<and> r_status r' = r_status r \<and> r_inFlight r' = r_inFlight r"
proof -
  from assms obtain r where r: "find_row e j = Some r" and nf: "\<not> r_inFlight r"
    by (auto simp add: update_def split: option.splits if_splits)
  from assms r nf obtain r1 where r1: "patch_fields r p = Inr r1"
    by (auto simp add: update_def split: sum.splits)
  from assms r nf r1 obtain r2 where r2: "patch_trigger env r1 p now = Inr r2"
    and e': "e' = put_row j r2 e"
    by (auto simp add: update_def split: sum.splits)
  from patch_fields_run_state [OF r1] patch_trigger_run_state [OF r2] r nf e'
  show ?thesis by auto
qed

lemma step_inv:
  assumes "engine_inv e"
  shows "engine_inv (apply_event env e ev)"
proof (cases ev)
  case (Create d now)
  with assms show ?thesis
    by (auto simp add: apply_event_def create_def intro!: inv_create)
next
  case (Activate j now)
  with assms show ?thesis
    by (auto simp add: apply_event_def activate_def
        split: option.splits schedule_status.splits intro!: inv_put_row dest: inv_row)
next
  case (Pause j)
  with assms show ?thesis
    by (auto simp add: apply_event_def pause_def
        split: option.splits intro!: inv_put_row dest: inv_row)
next
  case (Update j p now)
  show ?thesis
  proof (cases "update env j p now e")
    case (Inl err)
    with Update assms show ?thesis by (simp add: apply_event_def)
  next
    case (Inr e')
    from update_row [OF Inr] obtain r r' where "find_row e j = Some r" "\<not> r_inFlight r"
      "e' = put_row j r' e" "r_status r' = r_status r" "r_inFlight r' = r_inFlight r"
      by blast
    with assms have "engine_inv e'" by (auto intro!: inv_put_row dest: inv_row)
    with Update Inr show ?thesis by (simp add: apply_event_def)
  qed
next
  case (Delete j)
  with assms show ?thesis
    by (auto simp add: apply_event_def delete_def inv_remove_row split: option.splits)
next
  case (Scan now)
  with assms show ?thesis by (simp add: apply_event_def scan_def fold_claim_inv)
next
  case (JobSuccess j now)
  with assms show ?thesis
    by (auto simp add: apply_event_def jobSuccess_def
        split: option.splits schedule_type.splits intro!: inv_put_row dest: inv_row)
next
  case (JobFailure j msg)
  with assms show ?thesis
    by (auto simp add: apply_event_def jobFailure_def
        split: option.splits intro!: inv_put_row dest: inv_row)
qed

lemma step_nextId: "nextId e \<le> nextId (apply_event env e ev)"
proof (cases ev)
  case (Update j p now)
  show ?thesis
  proof (cases "update env j p now e")
    case (Inl err)
    with Update show ?thesis by (simp add: apply_event_def)
  next
    case (Inr e')
    from update_row [OF Inr] Update Inr show ?thesis by (auto simp add: apply_event_def)
  qed
qed (auto simp add: apply_event_def create_def activate_def pause_def delete_def scan_def
      jobSuccess_def jobFailure_def
      split: option.splits if_splits schedule_status.splits schedule_type.splits)

lemma step_retired:
  assumes inv: "engine_inv e" and lt: "i < nextId e"
    and st: "status_of e i = None \<or> status_of e i = Some COMPLETED"
  shows "(status_of (apply_event env e ev) i = None
            \<or> status_of (apply_event env e ev) i = Some COMPLETED)
         \<and> dispatches_of (apply_event env e ev) i = dispatches_of e i"
proof -
  have nf: "\<not> r_inFlight r" "r_status r = COMPLETED" if "find_row e i = Some r" for r
    using that st inv_row [OF inv that] by (auto simp add: status_of_def)
  show ?thesis
  proof (cases ev)
    case (Create d now)
    with lt st show ?thesis
      by (auto simp add: apply_event_def create_def status_of_def dispatches_of_def
          split: if_splits)
  next
    case (Activate j now)
    with st show ?thesis
      by (auto simp add: apply_event_def activate_def status_of_def dispatches_of_def
          split: option.splits schedule_status.splits if_splits)
  next
    case (Pause j)
    with st show ?thesis
      by (auto simp add: apply_event_def pause_def status_of_def dispatches_of_def
          split: option.splits if_splits)
  next
    case (Update j p now)
    show ?thesis
    proof (cases "update env j p now e")
      case (Inl err)
      with Update st show ?thesis by (simp add: apply_event_def)
    next
      case (Inr e')
      from update_row [OF Inr] obtain r r' where "find_row e j = Some r"
        "e' = put_row j r' e" "r_status r' = r_status r"
        by blast
      with st have "(status_of e' i = None \<or> status_of e' i = Some COMPLETED)
         \<and> dispatches_of e' i = dispatches_of e i"
        by (auto simp add: status_of_def dispatches_of_def)
      with Update Inr show ?thesis by (simp add: apply_event_def)
    qed
  next
    case (Delete j)
    with st show ?thesis
      by (auto simp add: apply_event_def delete_def status_of_def dispatches_of_def
          split: option.splits if_splits)
  next
    case (Scan now)
    from st have "status_of e i \<noteq> Some ACTIVE" by auto
    with Scan st show ?thesis
      by (simp add: apply_event_def scan_def fold_claim_dispatches)
  next
    case (JobSuccess j now)
    with st nf show ?thesis
      by (auto simp add: apply_event_def jobSuccess_def status_of_def dispatches_of_def
          split: option.splits if_splits schedule_type.splits)
  next
    case (JobFailure j msg)
    with st nf show ?thesis
      by (auto simp add: apply_event_def jobFailure_def status_of_def dispatches_of_def
          split: option.splits if_splits)
  qed
qed

lemma run_retired:
  "engine_inv e \<Longrightarrow> i < nextId e \<Longrightarrow>
   status_of e i = None \<or> status_of e i = Some COMPLETED \<Longrightarrow>
   (status_of (run env e evs) i = None \<or> status_of (run env e evs) i = Some COMPLETED)
   \<and> dispatches_of (run env e evs) i = dispatches_of e i"
proof (induction evs arbitrary: e)
  case Nil
  then show ?case by (simp add: run_def)
next
  case (Cons ev evs)
  let ?e = "apply_event env e ev"
  from Cons.prems have a: "engine_inv ?e" by (simp add: step_inv)
  from Cons.prems step_nextId [of e env ev] have b: "i < nextId ?e" by simp
  from step_retired [OF Cons.prems(1) Cons.prems(2) Cons.prems(3), of env ev]
  have c: "status_of ?e i = None \<or> status_of ?e i = Some COMPLETED"
    and d: "dispatches_of ?e i = dispatches_of e i" by simp_all
  from Cons.IH [OF a b c] d show ?case by (simp add: run_def)
qed

lemma jobSuccess_one_time:
  assumes "find_row e i = Some r" "r_inFlight r" "r_scheduleType r = ONE_TIME"
  shows "status_of (jobSuccess env i now e) i = Some COMPLETED"
    and "dispatches_of (jobSuccess env i now e) i = dispatches_of e i"
    and "nextId (jobSuccess env i now e) = nextId e"
  using assms by (simp_all add: jobSuccess_def status_of_def dispatches_of_def)

lemma empty_engine_inv: "engine_inv empty_engine"
  by (simp add: engine_inv_def empty_engine_def)

lemma run_inv: "engine_inv e \<Longrightarrow> engine_inv (run env e evs)"
  by (induction evs arbitrary: e) (simp_all add: run_def step_inv)

text \<open>The example states are states of the engine: a create, a scan, a success report.\<close>

lemma claimed_engine_reached:
  "run daily_env empty_engine [Create once_draft 0, Scan 10] = claimed_engine"
  by (simp add: find_row_def remove_row_def run_def apply_event_def create_def valid_draft_def once_draft_def
      empty_engine_def daily_env_def scan_def claim_def put_row_def claimed_engine_def
      claimed_row_def)

lemma completed_engine_reached:
  "jobSuccess daily_env 0 12 claimed_engine = completed_engine"
  by (simp add: find_row_def jobSuccess_def claimed_engine_def claimed_row_def completed_engine_def
      completed_row_def put_row_def)

text \<open>
  Claim C2. Activating a schedule whose status is COMPLETED fails with InvalidState and
  leaves the engine, and so the schedule, unchanged. In both versions of the list a
  schedule with status COMPLETED gets exactly one activate control, that control is
  disabled, and no click on a control of its Actions cell issues an activate request.
\<close>

theorem C2_completed_cannot_be_activated:
  assumes "find_row e i = Some r" and "r_status r = COMPLETED" and "status s = COMPLETED"
  shows "activate env i now e = Inl InvalidState
     \<and> apply_event env e (Activate i now) = e
     \<and> map ctl_disabled (filter is_activate_control (actionsCell_000 isPausing isActivating s))
         = [True]
     \<and> map ctl_disabled (filter is_activate_control (actionsCell_003 isPausing isActivating s))
         = [True]
     \<and> filter is_activate (cell_requests st d (actionsCell_000 isPausing isActivating s)) = []
     \<and> filter is_activate (cell_requests st d (actionsCell_003 isPausing isActivating s)) = []"
proof -
  from assms(1,2) have a: "activate env i now e = Inl InvalidState"
    by (simp add: activate_def)
  then have b: "apply_event env e (Activate i now) = e"
    by (simp add: apply_event_def)
  from assms(3) have c0:
    "map ctl_disabled (filter is_activate_control (actionsCell_000 isPausing isActivating s))
       = [True]"
    by (simp add: actionsCell_000_def is_activate_control_def)
  from assms(3) have c3:
    "map ctl_disabled (filter is_activate_control (actionsCell_003 isPausing isActivating s))
       = [True]"
    by (simp add: actionsCell_003_def is_activate_control_def)
  from assms(3) have r0:
    "filter is_activate (cell_requests st d (actionsCell_000 isPausing isActivating s)) = []"
    by (simp add: actionsCell_000_def cell_requests_def click_requests_def click_def)
  from assms(3) have r3:
    "filter is_activate (cell_requests st d (actionsCell_003 isPausing isActivating s)) = []"
    by (simp add: actionsCell_003_def cell_requests_def click_requests_def click_def)
  from a b c0 c3 r0 r3 show ?thesis by simp
qed

theorem C2_completed_cannot_be_activated_witness:
  "find_row completed_engine 0 = Some completed_row
   \<and> r_status completed_row = COMPLETED
   \<and> status completed_schedule = COMPLETED
   \<and> activate daily_env 0 20 completed_engine = Inl InvalidState
   \<and> apply_event daily_env completed_engine (Activate 0 20) = completed_engine
   \<and> map ctl_disabled (filter is_activate_control (actionsCell_000 False False completed_schedule))
       = [True]
   \<and> map ctl_disabled (filter is_activate_control (actionsCell_003 False False completed_schedule))
       = [True]
   \<and> cell_requests initial_state True (actionsCell_000 False False completed_schedule) = []
   \<and> cell_requests initial_state True (actionsCell_003 False False completed_schedule) = []"
proof -
  have h1: "find_row completed_engine 0 = Some completed_row"
    by (simp add: find_row_def completed_engine_def)
  have h2: "r_status completed_row = COMPLETED"
    by (simp add: completed_row_def)
  have h3: "status completed_schedule = COMPLETED"
    by (simp add: completed_schedule_def)
  have q0: "cell_requests initial_state True (actionsCell_000 False False completed_schedule) = []"
    by (simp add: actionsCell_000_def cell_requests_def click_requests_def click_def
        completed_schedule_def)
  have q3: "cell_requests initial_state True (actionsCell_003 False False completed_schedule) = []"
    by (simp add: actionsCell_003_def cell_requests_def click_requests_def click_def
        completed_schedule_def)
  from C2_completed_cannot_be_activated [OF h1 h2 h3, of daily_env 20 False False initial_state True]
    h1 h2 h3 q0 q3
  show ?thesis by simp
qed

text \<open>
  Claim C6. When the job executor reports success for a ONE_TIME schedule in flight, the
  status is COMPLETED; whatever operations follow, the dispatch log gains no entry for
  that schedule id and the schedule stays COMPLETED until it is deleted. In every
  well-formed state, no operation takes a COMPLETED schedule to another status: the
  operation fails, or the schedule is COMPLETED or deleted afterwards.
\<close>

theorem C6_one_time_completed_is_terminal:
  "(engine_inv e \<and> find_row e i = Some r \<and> r_inFlight r \<and> r_scheduleType r = ONE_TIME
      \<longrightarrow> status_of (jobSuccess env i now e) i = Some COMPLETED
          \<and> dispatches_of (run env (jobSuccess env i now e) evs) i = dispatches_of e i
          \<and> (status_of (run env (jobSuccess env i now e) evs) i = None
               \<or> status_of (run env (jobSuccess env i now e) evs) i = Some COMPLETED))
   \<and> (engine_inv e0 \<and> status_of e0 j = Some COMPLETED
      \<longrightarrow> step env ev e0 = Inl InvalidState \<or> step env ev e0 = Inl NotFound
          \<or> step env ev e0 = Inl ValidationError
          \<or> (\<exists>e1. step env ev e0 = Inr e1
                \<and> (status_of e1 j = None \<or> status_of e1 j = Some COMPLETED)))"
proof (intro conjI impI)
  assume a: "engine_inv e \<and> find_row e i = Some r \<and> r_inFlight r \<and> r_scheduleType r = ONE_TIME"
  let ?e = "jobSuccess env i now e"
  from a have row: "find_row e i = Some r" and fl: "r_inFlight r"
    and ot: "r_scheduleType r = ONE_TIME" and inv: "engine_inv e" by simp_all
  have e: "?e = apply_event env e (JobSuccess i now)" by (simp add: apply_event_def)
  from inv have inv': "engine_inv ?e" unfolding e by (rule step_inv)
  from inv_row [OF inv row] have "i < nextId e" by simp
  with jobSuccess_one_time(3) [OF row fl ot] have lt: "i < nextId ?e" by simp
  from jobSuccess_one_time(1) [OF row fl ot]
  show c: "status_of ?e i = Some COMPLETED" .
  then have c': "status_of ?e i = None \<or> status_of ?e i = Some COMPLETED" by simp
  from run_retired [OF inv' lt c', of env evs] jobSuccess_one_time(2) [OF row fl ot, of env now]
  show "dispatches_of (run env ?e evs) i = dispatches_of e i" by simp
  from run_retired [OF inv' lt c', of env evs]
  show "status_of (run env ?e evs) i = None \<or> status_of (run env ?e evs) i = Some COMPLETED"
    by simp
next
  assume b: "engine_inv e0 \<and> status_of e0 j = Some COMPLETED"
  then have inv: "engine_inv e0" and c: "status_of e0 j = Some COMPLETED" by simp_all
  from c obtain r0 where r0: "find_row e0 j = Some r0" by (auto simp add: status_of_def)
  from inv_row [OF inv r0] have lt: "j < nextId e0" by simp
  from c have c': "status_of e0 j = None \<or> status_of e0 j = Some COMPLETED" by simp
  show "step env ev e0 = Inl InvalidState \<or> step env ev e0 = Inl NotFound
          \<or> step env ev e0 = Inl ValidationError
          \<or> (\<exists>e1. step env ev e0 = Inr e1
                \<and> (status_of e1 j = None \<or> status_of e1 j = Some COMPLETED))"
  proof (cases "step env ev e0")
    case (Inl err)
    then show ?thesis by (cases err) simp_all
  next
    case (Inr e1)
    then have "apply_event env e0 ev = e1" by (simp add: apply_event_def)
    with step_retired [OF inv lt c', of env ev] Inr show ?thesis by simp
  qed
qed

theorem C6_one_time_completed_is_terminal_witness:
  "engine_inv claimed_engine
   \<and> find_row claimed_engine 0 = Some claimed_row
   \<and> r_inFlight claimed_row
   \<and> r_scheduleType claimed_row = ONE_TIME
   \<and> status_of (jobSuccess daily_env 0 12 claimed_engine) 0 = Some COMPLETED
   \<and> dispatches_of
       (run daily_env (jobSuccess daily_env 0 12 claimed_engine)
          [Activate 0 20, Scan 30, Pause 0, Scan 40]) 0 = [(0, 5)]
   \<and> engine_inv completed_engine
   \<and> status_of completed_engine 0 = Some COMPLETED
   \<and> step daily_env (Activate 0 20) completed_engine = Inl InvalidState
   \<and> step daily_env (Scan 30) completed_engine = Inr completed_engine"
proof -
  have h1: "engine_inv claimed_engine"
    by (simp add: engine_inv_def claimed_engine_def claimed_row_def)
  have h2: "find_row claimed_engine 0 = Some claimed_row"
    by (simp add: find_row_def claimed_engine_def)
  have h3: "r_inFlight claimed_row" "r_scheduleType claimed_row = ONE_TIME"
    by (simp_all add: claimed_row_def)
  have h4: "engine_inv completed_engine"
    by (simp add: engine_inv_def completed_engine_def completed_row_def claimed_row_def)
  have h5: "status_of completed_engine 0 = Some COMPLETED"
    by (simp add: find_row_def status_of_def completed_engine_def completed_row_def)
  have d: "dispatches_of claimed_engine 0 = [(0, 5)]"
    by (simp add: dispatches_of_def claimed_engine_def)
  have s1: "step daily_env (Activate 0 20) completed_engine = Inl InvalidState"
    by (simp add: find_row_def activate_def completed_engine_def completed_row_def)
  have s2: "step daily_env (Scan 30) completed_engine = Inr completed_engine"
    by (simp add: find_row_def scan_def claim_def completed_engine_def completed_row_def)
  from C6_one_time_completed_is_terminal [of claimed_engine 0 claimed_row daily_env 12
      "[Activate 0 20, Scan 30, Pause 0, Scan 40]" completed_engine 0 "Activate 0 20"]
    h1 h2 h3 h4 h5 d s1 s2
  show ?thesis by simp
qed

text \<open>
  Helper facts for the data-model invariant: every operation of the engine keeps it, so
  it holds in every state the engine reaches; and the schedule form sends only payloads
  that satisfy it. The two extra form states show the validation at a no-break-space name
  and at a row count of \<open>NaN\<close>.
\<close>

lemma cron_inv_iff:
  "cron_inv e \<longleftrightarrow>
     (\<forall>i r. (i, r) \<in> set (store e) \<longrightarrow>
        (r_cronExpression r \<noteq> None) = (r_scheduleType r = RECURRING))"
  by (auto simp add: cron_inv_def list_all_iff)

lemma cron_row:
  "cron_inv e \<Longrightarrow> find_row e i = Some r \<Longrightarrow>
   (r_cronExpression r \<noteq> None) = (r_scheduleType r = RECURRING)"
  unfolding cron_inv_iff find_row_def by (blast dest: map_of_SomeD)

lemma cron_put_row:
  assumes "cron_inv e" and "(r_cronExpression r \<noteq> None) = (r_scheduleType r = RECURRING)"
  shows "cron_inv (put_row i r e)"
  using assms set_update_subset [of i r "store e"]
  unfolding cron_inv_iff by (auto simp add: put_row_def)

lemma cron_remove_row: "cron_inv e \<Longrightarrow> cron_inv (remove_row i e)"
  using set_delete_subset [of i "store e"]
  unfolding cron_inv_iff by (auto simp add: remove_row_def)

lemma cron_inv_fields [simp]:
  "cron_inv (e\<lparr>dispatched := ds\<rparr>) = cron_inv e"
  "cron_inv (e\<lparr>nextId := n\<rparr>) = cron_inv e"
  by (simp_all add: cron_inv_def)

lemma claim_cron: "cron_inv e \<Longrightarrow> cron_inv (claim now j e)"
  by (auto simp add: claim_def split: option.split intro!: cron_put_row dest: cron_row)

lemma fold_claim_cron: "cron_inv e \<Longrightarrow> cron_inv (fold (claim now) js e)"
  by (induction js arbitrary: e) (simp_all add: claim_cron)

lemma patch_fields_cron:
  "patch_fields r p = Inr r' \<Longrightarrow>
   r_cronExpression r' = r_cronExpression r \<and> r_scheduleType r' = r_scheduleType r"
  by (auto simp add: patch_fields_def Let_def split: if_splits)

lemma patch_trigger_cron:
  assumes "patch_trigger env r p now = Inr r'"
    and "(r_cronExpression r \<noteq> None) = (r_scheduleType r = RECURRING)"
  shows "(r_cronExpression r' \<noteq> None) = (r_scheduleType r' = RECURRING)"
  using assms
  by (cases "r_scheduleType r")
     (auto simp add: patch_trigger_def Let_def
       split: if_splits option.splits schedule_type.splits)

lemma update_cron:
  assumes "update env j p now e = Inr e'" and "cron_inv e"
  shows "cron_inv e'"
proof -
  from assms(1) obtain r where r: "find_row e j = Some r" and nf: "\<not> r_inFlight r"
    by (auto simp add: update_def split: option.splits if_splits)
  from assms(1) r nf obtain r1 where r1: "patch_fields r p = Inr r1"
    by (auto simp add: update_def split: sum.splits)
  from assms(1) r nf r1 obtain r2 where r2: "patch_trigger env r1 p now = Inr r2"
    and e': "e' = put_row j r2 e"
    by (auto simp add: update_def split: sum.splits)
  from cron_row [OF assms(2) r] patch_fields_cron [OF r1]
  have "(r_cronExpression r1 \<noteq> None) = (r_scheduleType r1 = RECURRING)" by simp
  from patch_trigger_cron [OF r2 this] assms(2) e' show ?thesis
    by (simp add: cron_put_row)
qed

lemma step_cron:
  assumes "cron_inv e"
  shows "cron_inv (apply_event env e ev)"
proof (cases ev)
  case (Create d now)
  with assms show ?thesis
    by (auto simp add: apply_event_def create_def valid_draft_def
        split: schedule_type.splits option.splits intro!: cron_put_row)
next
  case (Activate j now)
  with assms show ?thesis
    by (auto simp add: apply_event_def activate_def
        split: option.splits schedule_status.splits intro!: cron_put_row dest: cron_row)
next
  case (Pause j)
  with assms show ?thesis
    by (auto simp add: apply_event_def pause_def
        split: option.splits intro!: cron_put_row dest: cron_row)
next
  case (Update j p now)
  with assms show ?thesis
    by (auto simp add: apply_event_def update_cron split: sum.splits)
next
  case (Delete j)
  with assms show ?thesis
    by (auto simp add: apply_event_def delete_def cron_remove_row split: option.splits)
next
  case (Scan now)
  with assms show ?thesis by (simp add: apply_event_def scan_def fold_claim_cron)
next
  case (JobSuccess j now)
  with assms show ?thesis
    by (auto simp add: apply_event_def jobSuccess_def
        split: option.splits schedule_type.splits intro!: cron_put_row dest: cron_row)
next
  case (JobFailure j msg)
  with assms show ?thesis
    by (auto simp add: apply_event_def jobFailure_def
        split: option.splits intro!: cron_put_row dest: cron_row)
qed

lemma empty_engine_cron: "cron_inv empty_engine"
  by (simp add: cron_inv_def empty_engine_def)

lemma run_cron: "cron_inv e \<Longrightarrow> cron_inv (run env e evs)"
  by (induction evs arbitrary: e) (simp_all add: run_def step_cron)

lemma handleSubmit_cron:
  assumes "handleSubmit ident formData = Some payload"
  shows "(pl_cronExpression payload \<noteq> None) = (pl_scheduleType payload = RECURRING)
         \<and> truthy (pl_cronExpression payload) = (pl_scheduleType payload = RECURRING)"
proof -
  from assms have v: "validateForm formData"
    by (simp add: handleSubmit_def split: if_splits)
  then have c: "fd_scheduleType formData = RECURRING \<Longrightarrow> truthy (fd_cronExpression formData)"
    by (auto simp add: validateForm_def formErrors_def split: if_splits)
  from assms v have p: "pl_scheduleType payload = fd_scheduleType formData"
    and q: "pl_cronExpression payload =
      (if fd_scheduleType formData = RECURRING then fd_cronExpression formData else None)"
    by (auto simp add: handleSubmit_def)
  show ?thesis
  proof (cases "fd_scheduleType formData")
    case ONE_TIME
    with p q show ?thesis by simp
  next
    case RECURRING
    with c have "truthy (fd_cronExpression formData)" by simp
    with RECURRING p q show ?thesis by (cases "fd_cronExpression formData") simp_all
  qed
qed

lemma nbsp_name_refused: "handleSubmit ident nbsp_name_formData = None"
  by (simp add: handleSubmit_def validateForm_def formErrors_def nbsp_name_formData_def
      nightly_formData_def initial_formData_def trim_def is_space_def)

lemma nan_rows_submitted:
  "map_option pl_rowCount (handleSubmit None nan_rows_formData) = Some NaN"
  by (simp add: handleSubmit_def validateForm_def formErrors_def nan_rows_formData_def
      nightly_formData_def initial_formData_def isEditMode_def trim_def is_space_def)

lemma nightly_row_reached:
  "find_row (run daily_env empty_engine [Create nightly_draft 0, Create once_draft 0, Scan 10]) 0
     = Some nightly_row"
  by (simp add: find_row_def run_def apply_event_def create_def valid_draft_def
      nightly_draft_def once_draft_def empty_engine_def daily_env_def scan_def claim_def
      put_row_def upt_rec nightly_row_def)

lemma nightly_payload_sent: "handleSubmit None nightly_formData = Some nightly_payload"
  by (simp add: handleSubmit_def validateForm_def formErrors_def nightly_formData_def
      initial_formData_def isEditMode_def trim_def is_space_def nightly_payload_def)

text \<open>
  Claim C3. For every schedule, the \<open>cronExpression\<close> field is present exactly when
  \<open>scheduleType\<close> is RECURRING: in every state the engine reaches from the empty store,
  whatever operations were applied, no ONE_TIME row carries a cron expression and no
  RECURRING row lacks one. The frontend's one producer of schedules agrees: every
  payload the schedule form sends carries a cron expression, and a non-empty one, exactly
  when its type is RECURRING.
\<close>

theorem C3_cron_iff_recurring:
  "(find_row (run env empty_engine evs) i = Some r
      \<longrightarrow> (r_cronExpression r \<noteq> None) = (r_scheduleType r = RECURRING))
   \<and> (handleSubmit ident formData = Some payload
      \<longrightarrow> (pl_cronExpression payload \<noteq> None) = (pl_scheduleType payload = RECURRING)
          \<and> truthy (pl_cronExpression payload) = (pl_scheduleType payload = RECURRING))"
proof (intro conjI impI)
  assume "find_row (run env empty_engine evs) i = Some r"
  with run_cron [OF empty_engine_cron, of env evs]
  show "(r_cronExpression r \<noteq> None) = (r_scheduleType r = RECURRING)"
    by (rule cron_row)
next
  assume a: "handleSubmit ident formData = Some payload"
  from handleSubmit_cron [OF a]
  show "(pl_cronExpression payload \<noteq> None) = (pl_scheduleType payload = RECURRING)"
    and "truthy (pl_cronExpression payload) = (pl_scheduleType payload = RECURRING)"
    by simp_all
qed

theorem C3_cron_iff_recurring_witness:
  "find_row (run daily_env empty_engine [Create nightly_draft 0, Create once_draft 0, Scan 10]) 0
     = Some nightly_row
   \<and> r_scheduleType nightly_row = RECURRING
   \<and> r_cronExpression nightly_row \<noteq> None
   \<and> handleSubmit None nightly_formData = Some nightly_payload
   \<and> pl_scheduleType nightly_payload = RECURRING
   \<and> truthy (pl_cronExpression nightly_payload)"
proof -
  have t: "r_scheduleType nightly_row = RECURRING" "pl_scheduleType nightly_payload = RECURRING"
    by (simp_all add: nightly_row_def nightly_payload_def)
  from C3_cron_iff_recurring [of daily_env
      "[Create nightly_draft 0, Create once_draft 0, Scan 10]" 0 nightly_row
      None nightly_formData nightly_payload]
    nightly_row_reached nightly_payload_sent t
  show ?thesis by simp
qed

text \<open>
  Helper facts for the claim step: a row that is not claimable is not dispatched by any
  sequence of claim steps, and the one claim step that dispatches a row leaves it in
  flight and so not claimable.
\<close>

lemma claims_simps [simp]:
  "claims [] e = e"
  "claims ((now, j) # steps) e = claims steps (claim now j e)"
  by (simp_all add: claims_def)

lemma scan_as_claims: "scan now e = claims (scan_steps now e) e"
  by (simp add: scan_def claims_def scan_steps_def fold_map comp_def)

lemma claim_frozen:
  assumes "\<not> claimable e i"
  shows "\<not> claimable (claim now j e) i"
    and "dispatches_of (claim now j e) i = dispatches_of e i"
  using assms
  by (auto simp add: claim_def claimable_def dispatches_of_def split: option.splits if_splits)

lemma claims_frozen:
  "\<not> claimable e i \<Longrightarrow> dispatches_of (claims steps e) i = dispatches_of e i"
proof (induction steps arbitrary: e)
  case Nil
  then show ?case by simp
next
  case (Cons s steps)
  obtain now j where s: "s = (now, j)" by (cases s)
  from Cons.prems have "\<not> claimable (claim now j e) i" by (rule claim_frozen(1))
  from Cons.IH [OF this] claim_frozen(2) [OF Cons.prems] s show ?case by simp
qed

lemma claim_effect:
  "(find_row (claim now j e) i = find_row e i
      \<and> dispatches_of (claim now j e) i = dispatches_of e i)
   \<or> (\<exists>r. j = i \<and> find_row e i = Some r \<and> r_status r = ACTIVE \<and> \<not> r_inFlight r
          \<and> r_nextRunTime r \<le> now
          \<and> \<not> claimable (claim now j e) i
          \<and> dispatches_of (claim now j e) i = dispatches_of e i @ [(i, r_nextRunTime r)])"
  by (auto simp add: claim_def claimable_def dispatches_of_def split: option.splits)

lemma claims_at_most_once:
  "length (dispatches_of (claims steps e) i) \<le> Suc (length (dispatches_of e i))"
proof (induction steps arbitrary: e)
  case Nil
  then show ?case by simp
next
  case (Cons s steps)
  obtain now j where s: "s = (now, j)" by (cases s)
  from claim_effect [of now j e i] show ?case
  proof
    assume "find_row (claim now j e) i = find_row e i
      \<and> dispatches_of (claim now j e) i = dispatches_of e i"
    with Cons.IH [of "claim now j e"] s show ?thesis by simp
  next
    assume "\<exists>r. j = i \<and> find_row e i = Some r \<and> r_status r = ACTIVE \<and> \<not> r_inFlight r
          \<and> r_nextRunTime r \<le> now
          \<and> \<not> claimable (claim now j e) i
          \<and> dispatches_of (claim now j e) i = dispatches_of e i @ [(i, r_nextRunTime r)]"
    then obtain r :: sched_row where f: "\<not> claimable (claim now j e) i"
      and d: "dispatches_of (claim now j e) i = dispatches_of e i @ [(i, r_nextRunTime r)]"
      by blast
    from claims_frozen [OF f, of steps] d s show ?thesis by simp
  qed
qed

lemma claims_exactly_once:
  assumes "find_row e i = Some r" and "r_status r = ACTIVE" and "\<not> r_inFlight r"
    and "(now, i) \<in> set steps" and "r_nextRunTime r \<le> now"
  shows "dispatches_of (claims steps e) i = dispatches_of e i @ [(i, r_nextRunTime r)]"
  using assms
proof (induction steps arbitrary: e)
  case Nil
  then show ?case by simp
next
  case (Cons s steps)
  obtain n j where s: "s = (n, j)" by (cases s)
  from claim_effect [of n j e i] show ?case
  proof
    assume same: "find_row (claim n j e) i = find_row e i
      \<and> dispatches_of (claim n j e) i = dispatches_of e i"
    have "(n, j) \<noteq> (now, i)"
    proof
      assume "(n, j) = (now, i)"
      with Cons.prems have "dispatches_of (claim n j e) i \<noteq> dispatches_of e i"
        by (simp add: claim_def dispatches_of_def)
      with same show False by simp
    qed
    with Cons.prems(4) s have "(now, i) \<in> set steps" by auto
    with Cons.IH [of "claim n j e"] same Cons.prems s show ?thesis by simp
  next
    assume "\<exists>r. j = i \<and> find_row e i = Some r \<and> r_status r = ACTIVE \<and> \<not> r_inFlight r
          \<and> r_nextRunTime r \<le> n
          \<and> \<not> claimable (claim n j e) i
          \<and> dispatches_of (claim n j e) i = dispatches_of e i @ [(i, r_nextRunTime r)]"
    with Cons.prems(1) have f: "\<not> claimable (claim n j e) i"
      and d: "dispatches_of (claim n j e) i = dispatches_of e i @ [(i, r_nextRunTime r)]"
      by auto
    from claims_frozen [OF f, of steps] d s show ?thesis by simp
  qed
qed

lemma two_due_engine_reached:
  "run daily_env empty_engine [Create once_draft 0, Create once_draft 0] = two_due_engine"
  by (simp add: run_def apply_event_def create_def valid_draft_def once_draft_def
      empty_engine_def daily_env_def put_row_def two_due_engine_def due_row_def
      claimed_row_def)

text \<open>
  Claim C7. No schedule is dispatched twice for the same due occurrence, also when two
  evaluator instances scan the store at the same time. With the claim on a row as the
  atomic step, such scans are an interleaving of their claim steps. Whatever sequence of
  claim steps runs, the dispatch log gains at most one entry per schedule; a scan is such
  a sequence; and under every interleaving of two scans, a schedule that is ACTIVE, not
  in flight and due for one of them is handed to the job executor exactly once, with its
  nextRunTime as the occurrence.
\<close>

theorem C7_no_double_dispatch:
  "length (dispatches_of (claims steps e) i) \<le> Suc (length (dispatches_of e i))
   \<and> scan now e = claims (scan_steps now e) e
   \<and> (steps \<in> shuffles (scan_steps now1 e) (scan_steps now2 e)
        \<and> engine_inv e \<and> find_row e i = Some r \<and> r_status r = ACTIVE \<and> \<not> r_inFlight r
        \<and> (r_nextRunTime r \<le> now1 \<or> r_nextRunTime r \<le> now2)
      \<longrightarrow> dispatches_of (claims steps e) i = dispatches_of e i @ [(i, r_nextRunTime r)])"
proof (intro conjI impI)
  show "length (dispatches_of (claims steps e) i) \<le> Suc (length (dispatches_of e i))"
    by (rule claims_at_most_once)
  show "scan now e = claims (scan_steps now e) e" by (rule scan_as_claims)
next
  assume a: "steps \<in> shuffles (scan_steps now1 e) (scan_steps now2 e)
        \<and> engine_inv e \<and> find_row e i = Some r \<and> r_status r = ACTIVE \<and> \<not> r_inFlight r
        \<and> (r_nextRunTime r \<le> now1 \<or> r_nextRunTime r \<le> now2)"
  then have row: "find_row e i = Some r" and ac: "r_status r = ACTIVE"
    and nf: "\<not> r_inFlight r" and inv: "engine_inv e" by simp_all
  from inv_row [OF inv row] have lt: "i < nextId e" by simp
  from a have "set steps = set (scan_steps now1 e) \<union> set (scan_steps now2 e)"
    by (simp add: set_shuffles)
  with lt have m: "(now1, i) \<in> set steps" "(now2, i) \<in> set steps"
    by (auto simp add: scan_steps_def)
  from a have "r_nextRunTime r \<le> now1 \<or> r_nextRunTime r \<le> now2" by simp
  then show "dispatches_of (claims steps e) i = dispatches_of e i @ [(i, r_nextRunTime r)]"
  proof
    assume "r_nextRunTime r \<le> now1"
    with claims_exactly_once [OF row ac nf m(1)] show ?thesis by simp
  next
    assume "r_nextRunTime r \<le> now2"
    with claims_exactly_once [OF row ac nf m(2)] show ?thesis by simp
  qed
qed

theorem C7_no_double_dispatch_witness:
  "[(10, 0), (11, 0), (11, 1), (10, 1)]
     \<in> shuffles (scan_steps 10 two_due_engine) (scan_steps 11 two_due_engine)
   \<and> engine_inv two_due_engine
   \<and> find_row two_due_engine 1 = Some due_row
   \<and> r_status due_row = ACTIVE \<and> \<not> r_inFlight due_row \<and> r_nextRunTime due_row \<le> 10
   \<and> dispatches_of (claims [(10, 0), (11, 0), (11, 1), (10, 1)] two_due_engine) 1 = [(1, 5)]
   \<and> dispatched (claims [(10, 0), (11, 0), (11, 1), (10, 1)] two_due_engine)
       = [(0, 5), (1, 5)]"
proof -
  have s: "scan_steps 10 two_due_engine = [(10, 0), (10, 1)]"
    "scan_steps 11 two_due_engine = [(11, 0), (11, 1)]"
    by (simp_all add: scan_steps_def two_due_engine_def upt_rec)
  have h1: "[(10, 0), (11, 0), (11, 1), (10, 1)]
     \<in> shuffles (scan_steps 10 two_due_engine) (scan_steps 11 two_due_engine)"
    unfolding s by (simp add: Cons_in_shuffles_iff)
  have h2: "engine_inv two_due_engine"
    by (simp add: engine_inv_def two_due_engine_def due_row_def claimed_row_def)
  have h3: "find_row two_due_engine 1 = Some due_row"
    by (simp add: find_row_def two_due_engine_def)
  have h4: "r_status due_row = ACTIVE" "\<not> r_inFlight due_row" "r_nextRunTime due_row \<le> 10"
    by (simp_all add: due_row_def claimed_row_def)
  have h5: "r_nextRunTime due_row = 5"
    by (simp add: due_row_def claimed_row_def)
  have d0: "dispatches_of two_due_engine 1 = []"
    by (simp add: dispatches_of_def two_due_engine_def)
  have all: "dispatched (claims [(10, 0), (11, 0), (11, 1), (10, 1)] two_due_engine)
       = [(0, 5), (1, 5)]"
    by (simp add: claim_def find_row_def put_row_def two_due_engine_def due_row_def
        claimed_row_def)
  from C7_no_double_dispatch [of "[(10, 0), (11, 0), (11, 1), (10, 1)]" two_due_engine 1
      _ 10 11 due_row] h1 h2 h3 h4 h5 d0 all
  show ?thesis by simp
qed

end
